theory Spec2Isabelle
  imports Complex_Main "HOL-Library.Word" "HOL-Library.List_Lexorder"
begin

section \<open>JavaScript strings and values\<close>

text \<open>
  A JavaScript string is a sequence of 16-bit code units. \<open>startsWith\<close>, \<open>endsWith\<close>,
  \<open>===\<close> and the default comparison of \<open>Array.prototype.sort\<close> all work on code units,
  so strings are lists of 16-bit words, ordered lexicographically (a proper prefix comes
  first). \<open>js\<close> embeds an ASCII literal; text outside ASCII is written as its code units.
\<close>

type_synonym jschar = "16 word"
type_synonym jsstring = "jschar list"

definition js :: "string \<Rightarrow> jsstring" where
  "js s = map of_char s"

definition startsWith :: "jsstring \<Rightarrow> jsstring \<Rightarrow> bool" where
  "startsWith s p = (take (length p) s = p)"

definition endsWith :: "jsstring \<Rightarrow> jsstring \<Rightarrow> bool" where
  "endsWith s p = (length p \<le> length s \<and> drop (length s - length p) s = p)"

text \<open>
  Numbers that \<open>JSON.parse\<close> can yield: the finite doubles (all rational; \<open>-0\<close> is
  identified with \<open>0\<close>, both are falsy) and the infinities of overflowing literals.
\<close>

datatype jsnum = Finite rat | PosInfinity | NegInfinity

text \<open>
  The values the handler sees: what \<open>JSON.parse\<close> produces, and \<open>undefined\<close> for a
  property that is not there. An object is the list of its own properties, each name
  once.
\<close>

datatype jsval =
    JUndefined
  | JNull
  | JBool bool
  | JNum jsnum
  | JStr jsstring
  | JArr "jsval list"
  | JObj "(jsstring \<times> jsval) list"

datatype js_error = SyntaxError jsstring | TypeError jsstring | SystemError jsstring

fun message :: "js_error \<Rightarrow> jsstring" where
  "message (SyntaxError m) = m"
| "message (TypeError m) = m"
| "message (SystemError m) = m"

fun truthy :: "jsval \<Rightarrow> bool" where
  "truthy JUndefined = False"
| "truthy JNull = False"
| "truthy (JBool b) = b"
| "truthy (JNum n) = (n \<noteq> Finite 0)"
| "truthy (JStr s) = (s \<noteq> [])"
| "truthy (JArr xs) = True"
| "truthy (JObj kvs) = True"

text \<open>\<open>a || b\<close>\<close>

definition js_or :: "jsval \<Rightarrow> jsval \<Rightarrow> jsval" where
  "js_or a b = (if truthy a then a else b)"

text \<open>
  \<open>o.k\<close> for the property names this program reads (\<open>topic\<close>, \<open>type\<close>, \<open>audience\<close>,
  \<open>duration\<close>, \<open>tone\<close>, \<open>industry\<close>): none of them is defined on a built-in prototype, so
  the value is the own property or \<open>undefined\<close>. Reading a property of \<open>null\<close> or
  \<open>undefined\<close> throws a TypeError (the wording is V8's).
\<close>

fun property :: "jsval \<Rightarrow> jsstring \<Rightarrow> jsval" where
  "property (JObj kvs) k = (case map_of kvs k of None \<Rightarrow> JUndefined | Some v \<Rightarrow> v)"
| "property v k = JUndefined"

definition get_field :: "jsval \<Rightarrow> jsstring \<Rightarrow> js_error + jsval" where
  "get_field v k =
     (if v = JNull then
        Inl (TypeError (js ''Cannot read properties of null (reading '' @ [0x27] @ k @ [0x27] @ js '')''))
      else if v = JUndefined then
        Inl (TypeError (js ''Cannot read properties of undefined (reading '' @ [0x27] @ k @ [0x27] @ js '')''))
      else Inr (property v k))"

text \<open>
  \<open>String(v)\<close>. A number is printed by the engine (\<open>numstr\<close>). An array is its elements
  joined by commas, \<open>null\<close> and \<open>undefined\<close> elements printing as nothing. A plain
  object prints as \<open>[object Object]\<close> through \<open>Object.prototype.toString\<close>; when it has an
  own property \<open>toString\<close> (never callable after \<open>JSON.parse\<close>) the conversion finds no
  primitive and throws a TypeError.
\<close>

fun String_js :: "(jsnum \<Rightarrow> jsstring) \<Rightarrow> jsval \<Rightarrow> js_error + jsstring"
  and join_comma :: "(jsnum \<Rightarrow> jsstring) \<Rightarrow> jsval list \<Rightarrow> js_error + jsstring"
where
  "String_js numstr JUndefined = Inr (js ''undefined'')"
| "String_js numstr JNull = Inr (js ''null'')"
| "String_js numstr (JBool b) = Inr (if b then js ''true'' else js ''false'')"
| "String_js numstr (JNum n) = Inr (numstr n)"
| "String_js numstr (JStr s) = Inr s"
| "String_js numstr (JArr xs) = join_comma numstr xs"
| "String_js numstr (JObj kvs) =
     (if js ''toString'' \<in> set (map fst kvs)
      then Inl (TypeError (js ''Cannot convert object to primitive value''))
      else Inr (js ''[object Object]''))"
| "join_comma numstr [] = Inr []"
| "join_comma numstr (x # xs) =
     (case (if x = JNull \<or> x = JUndefined then Inr [] else String_js numstr x) of
        Inl e \<Rightarrow> Inl e
      | Inr s \<Rightarrow>
          (if xs = [] then Inr s
           else (case join_comma numstr xs of
                   Inl e \<Rightarrow> Inl e
                 | Inr r \<Rightarrow> Inr (s @ js '','' @ r))))"

section \<open>The \<open>path\<close> module (POSIX)\<close>

definition slash :: jschar where
  "slash = 0x2F"

definition dot :: jschar where
  "dot = 0x2E"

text \<open>\<open>s.split('/')\<close>: the pieces between the slashes, empty pieces included.\<close>

fun split_slash :: "jsstring \<Rightarrow> jsstring list" where
  "split_slash [] = [[]]"
| "split_slash (c # cs) =
     (let r = split_slash cs
      in if c = slash then [] # r else (c # hd r) # tl r)"

fun join_slash :: "jsstring list \<Rightarrow> jsstring" where
  "join_slash [] = []"
| "join_slash [s] = s"
| "join_slash (s # t # ts) = s @ slash # join_slash (t # ts)"

text \<open>
  \<open>path.basename(p)\<close>: the last component of the path, trailing slashes ignored; empty
  when the path has no component.
\<close>

definition basename :: "jsstring \<Rightarrow> jsstring" where
  "basename p =
     (let segs = filter (\<lambda>s. s \<noteq> []) (split_slash p)
      in if segs = [] then [] else last segs)"

text \<open>
  \<open>path.extname(p)\<close>: from the last dot of the last component to its end; empty when
  there is no dot, when the only dot is the component's first character, or when the
  component is \<open>..\<close>.
\<close>

definition extname :: "jsstring \<Rightarrow> jsstring" where
  "extname p =
     (let b = basename p;
          i = length b - length (takeWhile (\<lambda>c. c \<noteq> dot) (rev b)) - 1
      in if dot \<notin> set b \<or> i = 0 \<or> b = [dot, dot] then [] else drop i b)"

text \<open>
  \<open>path.normalize\<close> walks the components with a stack: empty components and \<open>.\<close> are
  dropped, \<open>..\<close> removes the component before it; at the top, \<open>..\<close> is kept in a
  relative path and dropped in an absolute one.
\<close>

definition normalize_step :: "bool \<Rightarrow> jsstring list \<Rightarrow> jsstring \<Rightarrow> jsstring list" where
  "normalize_step allowAboveRoot res seg =
     (if seg = [] \<or> seg = [dot] then res
      else if seg = [dot, dot] then
        (if res \<noteq> [] \<and> last res \<noteq> [dot, dot] then butlast res
         else if allowAboveRoot then res @ [seg]
         else res)
      else res @ [seg])"

definition normalizeString :: "jsstring \<Rightarrow> bool \<Rightarrow> jsstring" where
  "normalizeString p allowAboveRoot =
     join_slash (foldl (normalize_step allowAboveRoot) [] (split_slash p))"

definition path_normalize :: "jsstring \<Rightarrow> jsstring" where
  "path_normalize p =
     (if p = [] then [dot]
      else
        (let isAbsolute = (hd p = slash);
             trailingSeparator = (last p = slash);
             q = normalizeString p (\<not> isAbsolute)
         in if q = [] then
              (if isAbsolute then [slash]
               else if trailingSeparator then [dot, slash] else [dot])
            else (if isAbsolute then [slash] else []) @ q
                 @ (if trailingSeparator then [slash] else [])))"

text \<open>\<open>path.join(...args)\<close>: the non-empty arguments joined by slashes, normalised.\<close>

definition path_join :: "jsstring list \<Rightarrow> jsstring" where
  "path_join args =
     (let parts = filter (\<lambda>a. a \<noteq> []) args
      in if parts = [] then [dot] else path_normalize (join_slash parts))"

text \<open>A plain component: not empty, no slash, neither \<open>.\<close> nor \<open>..\<close>.\<close>

definition plain :: "jsstring \<Rightarrow> bool" where
  "plain s = (s \<noteq> [] \<and> slash \<notin> set s \<and> s \<noteq> [dot] \<and> s \<noteq> [dot, dot])"

section \<open>The URL constructor\<close>

text \<open>
  \<open>new URL(target, 'http://localhost:PORT').pathname\<close>, after the URL Standard. The
  base is an \<open>http\<close> URL with the path \<open>/\<close>, so a target without a scheme is parsed
  relative to it. A target that starts with a scheme (\<open>http://...\<close>), the validity of an
  authority (\<open>//host:port\<close>), and whether \<open>^\<close> is escaped in a path (the standard
  changed) are left to the environment; the rest is written out.
\<close>

record jsurl =
  pathname :: jsstring

text \<open>Leading and trailing C0 controls and spaces are dropped, then every tab and newline.\<close>

definition c0_or_space :: "jschar \<Rightarrow> bool" where
  "c0_or_space c = (c \<le> 0x20)"

definition tab_or_newline :: "jschar \<Rightarrow> bool" where
  "tab_or_newline c = (c = 0x09 \<or> c = 0x0A \<or> c = 0x0D)"

definition url_input :: "jsstring \<Rightarrow> jsstring" where
  "url_input s =
     filter (\<lambda>c. \<not> tab_or_newline c)
       (rev (dropWhile c0_or_space (rev (dropWhile c0_or_space s))))"

definition ascii_alpha :: "jschar \<Rightarrow> bool" where
  "ascii_alpha c = ((0x41 \<le> c \<and> c \<le> 0x5A) \<or> (0x61 \<le> c \<and> c \<le> 0x7A))"

definition ascii_digit :: "jschar \<Rightarrow> bool" where
  "ascii_digit c = (0x30 \<le> c \<and> c \<le> 0x39)"

text \<open>An ASCII letter, then letters, digits, \<open>+\<close>, \<open>-\<close>, \<open>.\<close>, then a colon.\<close>

definition has_scheme :: "jsstring \<Rightarrow> bool" where
  "has_scheme s =
     (case s of
        [] \<Rightarrow> False
      | c # cs \<Rightarrow>
          ascii_alpha c \<and>
          (case dropWhile (\<lambda>d. ascii_alpha d \<or> ascii_digit d \<or> d = 0x2B \<or> d = 0x2D \<or> d = 0x2E) cs of
             [] \<Rightarrow> False
           | d # ds \<Rightarrow> d = 0x3A))"

text \<open>
  The target as code points: a surrogate pair is one code point, a lone surrogate
  becomes U+FFFD.
\<close>

definition high_surrogate :: "jschar \<Rightarrow> bool" where
  "high_surrogate c = (0xD800 \<le> c \<and> c \<le> 0xDBFF)"

definition low_surrogate :: "jschar \<Rightarrow> bool" where
  "low_surrogate c = (0xDC00 \<le> c \<and> c \<le> 0xDFFF)"

definition scalar :: "jschar \<Rightarrow> nat" where
  "scalar c = (if high_surrogate c \<or> low_surrogate c then 0xFFFD else unat c)"

text \<open>The conversion of the target to scalar values, done before anything else.\<close>

fun usv :: "jsstring \<Rightarrow> jsstring" where
  "usv [] = []"
| "usv [c] = [if high_surrogate c \<or> low_surrogate c then 0xFFFD else c]"
| "usv (c # d # cs) =
     (if high_surrogate c \<and> low_surrogate d then c # d # usv cs
      else (if high_surrogate c \<or> low_surrogate c then 0xFFFD else c) # usv (d # cs))"

fun code_points :: "jsstring \<Rightarrow> nat list" where
  "code_points [] = []"
| "code_points [c] = [scalar c]"
| "code_points (c # d # cs) =
     (if high_surrogate c \<and> low_surrogate d
      then (0x10000 + (unat c - 0xD800) * 0x400 + (unat d - 0xDC00)) # code_points cs
      else scalar c # code_points (d # cs))"

definition utf8 :: "nat \<Rightarrow> nat list" where
  "utf8 n =
     (if n < 0x80 then [n]
      else if n < 0x800 then [0xC0 + n div 0x40, 0x80 + n mod 0x40]
      else if n < 0x10000 then
        [0xE0 + n div 0x1000, 0x80 + (n div 0x40) mod 0x40, 0x80 + n mod 0x40]
      else
        [0xF0 + n div 0x40000, 0x80 + (n div 0x1000) mod 0x40,
         0x80 + (n div 0x40) mod 0x40, 0x80 + n mod 0x40])"

definition hex_digit :: "nat \<Rightarrow> jschar" where
  "hex_digit d = (if d < 10 then of_nat (48 + d) else of_nat (55 + d))"

definition percent_byte :: "nat \<Rightarrow> jsstring" where
  "percent_byte b = [0x25, hex_digit (b div 16), hex_digit (b mod 16)]"

text \<open>
  The path percent-encode set: C0 controls, space, \<open>"\<close>, \<open>#\<close>, \<open><\<close>, \<open>>\<close>, \<open>?\<close>, \<open>`\<close>,
  \<open>{\<close>, \<open>}\<close>, everything above \<open>~\<close>, and \<open>^\<close> when the platform escapes it.
\<close>

definition in_path_set :: "bool \<Rightarrow> nat \<Rightarrow> bool" where
  "in_path_set caret n =
     (n \<le> 0x20 \<or> 0x7E < n \<or> n = 0x22 \<or> n = 0x23 \<or> n = 0x3C \<or> n = 0x3E \<or> n = 0x3F
      \<or> n = 0x60 \<or> n = 0x7B \<or> n = 0x7D \<or> (n = 0x5E \<and> caret))"

definition encode_segment :: "bool \<Rightarrow> jsstring \<Rightarrow> jsstring" where
  "encode_segment caret s =
     concat (map (\<lambda>n. if in_path_set caret n then concat (map percent_byte (utf8 n))
                        else [of_nat n])
               (code_points s))"

text \<open>In an \<open>http\<close> URL a backslash separates path segments like a slash.\<close>

definition separator :: "jschar \<Rightarrow> bool" where
  "separator c = (c = 0x2F \<or> c = 0x5C)"

fun split_segments :: "jsstring \<Rightarrow> jsstring list" where
  "split_segments [] = [[]]"
| "split_segments (c # cs) =
     (let r = split_segments cs
      in if separator c then [] # r else (c # hd r) # tl r)"

text \<open>
  The dot segments: \<open>.\<close> and \<open>..\<close>, also with a dot written \<open>%2e\<close> or \<open>%2E\<close>.
\<close>

definition encoded_dot :: "jsstring list" where
  "encoded_dot = [[0x25, 0x32, 0x65], [0x25, 0x32, 0x45]]"

definition single_dot :: "jsstring \<Rightarrow> bool" where
  "single_dot s = (s \<in> set ([0x2E] # encoded_dot))"

definition double_dot :: "jsstring \<Rightarrow> bool" where
  "double_dot s = (s \<in> set [a @ b. a \<leftarrow> [0x2E] # encoded_dot, b \<leftarrow> [0x2E] # encoded_dot])"

text \<open>
  The path state, one segment at a time: \<open>..\<close> removes the last segment of the path,
  \<open>.\<close> adds nothing, and either of them as the final segment leaves an empty segment
  (a trailing slash).
\<close>

fun add_segments :: "jsstring list \<Rightarrow> jsstring list \<Rightarrow> jsstring list" where
  "add_segments path [] = path"
| "add_segments path [s] =
     (if double_dot s then butlast path @ [[]]
      else if single_dot s then path @ [[]]
      else path @ [s])"
| "add_segments path (s # t # ts) =
     add_segments
       (if double_dot s then butlast path
        else if single_dot s then path
        else path @ [s])
       (t # ts)"

text \<open>The pathname of the path parsed from \<open>r\<close>, which holds no \<open>?\<close> and no \<open>#\<close>.\<close>

definition path_of :: "bool \<Rightarrow> jsstring \<Rightarrow> jsurl" where
  "path_of caret r =
     \<lparr>pathname =
        concat (map (\<lambda>s. 0x2F # s)
                  (add_segments [] (map (encode_segment caret) (split_segments r))))\<rparr>"

text \<open>
  Characters that the URL parser leaves as they are and that mean nothing in a path:
  letters, digits, \<open>-\<close>, \<open>.\<close>, \<open>_\<close> and \<open>~\<close>.
\<close>

definition unreserved :: "jschar \<Rightarrow> bool" where
  "unreserved c = (ascii_alpha c \<or> ascii_digit c \<or> c = 0x2D \<or> c = 0x2E \<or> c = 0x5F \<or> c = 0x7E)"

section \<open>The environment of the server\<close>

text \<open>
  What the handler takes from the platform and from the outside world, for one request.
\<close>

text \<open>
  The child process as the invoker observes it: the exit code passed to the \<open>close\<close>
  listener (\<open>None\<close> for \<open>null\<close>, a child ended by a signal), the text collected from its
  two streams, and the output directory when \<open>close\<close> fires, each entry with its name
  and the time it was created (\<open>fs.readdirSync\<close> returns the names).
\<close>

record proc_exit =
  exit_code :: "int option"
  stdout_text :: jsstring
  stderr_text :: jsstring
  output_entries :: "(jsstring \<times> nat) list"

record spawn_call =
  command :: jsstring
  args :: "jsval list"
  cwd :: jsstring

datatype fsnode = File "8 word list" | Directory

text \<open>
  \<^item> \<open>scheme_URL\<close>, \<open>authority_ok\<close>, \<open>escapes_caret\<close>: the parts of the URL constructor
    left to the platform (\<open>None\<close> when it throws);
  \<^item> \<open>JSON_parse\<close>, \<open>Number_toString\<close>, \<open>toLowerCase\<close>: built-in functions;
  \<^item> \<open>install_dir\<close>: the characters of \<open>__dirname\<close> after its leading slash;
  \<^item> \<open>Date_now\<close>, \<open>random_digits\<close>: the clock in milliseconds and the base-36 digits of
    \<open>Math.random()\<close> after \<open>0.\<close>;
  \<^item> \<open>child_process\<close>: how a child that \<open>spawn\<close> started ends;
  \<^item> \<open>spawn_rejects\<close>: whether the platform refuses to start a call, so that \<open>spawn\<close>
    throws (an argument list that is too long, for instance); \<open>spawn_error\<close>: what
    \<open>spawn\<close> throws;
  \<^item> \<open>files\<close>: the file system.
\<close>

record env =
  scheme_URL :: "jsstring \<Rightarrow> jsurl option"
  authority_ok :: "jsstring \<Rightarrow> bool"
  escapes_caret :: bool
  JSON_parse :: "jsstring \<Rightarrow> js_error + jsval"
  Number_toString :: "jsnum \<Rightarrow> jsstring"
  toLowerCase :: "jsstring \<Rightarrow> jsstring"
  install_dir :: jsstring
  Date_now :: nat
  random_digits :: "nat list"
  child_process :: "spawn_call \<Rightarrow> proc_exit"
  spawn_rejects :: "spawn_call \<Rightarrow> bool"
  spawn_error :: "spawn_call \<Rightarrow> js_error"
  files :: "jsstring \<Rightarrow> fsnode option"

text \<open>
  \<open>new URL(target, base)\<close>. The pathname is decided by what precedes the first \<open>?\<close> or
  \<open>#\<close> of the target. Without a scheme: two leading separators start an authority,
  which must not be empty and must be valid, and the path follows it; one leading
  separator starts the path; anything else is a path relative to the base path \<open>/\<close>.
\<close>

definition url_prefix :: "jsstring \<Rightarrow> jsstring" where
  "url_prefix target = takeWhile (\<lambda>c. c \<noteq> 0x3F \<and> c \<noteq> 0x23) (url_input (usv target))"

definition relative_URL :: "env \<Rightarrow> jsstring \<Rightarrow> jsurl option" where
  "relative_URL e p =
     (case p of
        [] \<Rightarrow> Some (path_of (escapes_caret e) [])
      | c # cs \<Rightarrow>
          if separator c then
            (case cs of
               [] \<Rightarrow> Some (path_of (escapes_caret e) [])
             | d # ds \<Rightarrow>
                 if separator d then
                   (let r = dropWhile separator ds;
                        authority = takeWhile (\<lambda>x. \<not> separator x) r
                    in if authority = [] \<or> \<not> authority_ok e authority then None
                       else
                         (case dropWhile (\<lambda>x. \<not> separator x) r of
                            [] \<Rightarrow> Some (path_of (escapes_caret e) [])
                          | x # rest \<Rightarrow> Some (path_of (escapes_caret e) rest)))
                 else Some (path_of (escapes_caret e) cs))
          else Some (path_of (escapes_caret e) p))"

definition new_URL :: "env \<Rightarrow> jsstring \<Rightarrow> jsurl option" where
  "new_URL e target =
     (if has_scheme (url_prefix target) then scheme_URL e (url_input (usv target))
      else relative_URL e (url_prefix target))"

section \<open>Configuration\<close>

text \<open>\<open>__dirname\<close>: an absolute path; a path holds no NUL character.\<close>

definition dirname :: "env \<Rightarrow> jsstring" where
  "dirname e = slash # filter (\<lambda>c. c \<noteq> 0) (install_dir e)"


definition FRONTEND_DIR :: "env \<Rightarrow> jsstring" where
  "FRONTEND_DIR e = path_join [dirname e, js ''frontend'', js ''public'']"

definition OUTPUT_DIR :: "env \<Rightarrow> jsstring" where
  "OUTPUT_DIR e = path_join [dirname e, js ''output'']"

definition SCRIPTS_DIR :: "env \<Rightarrow> jsstring" where
  "SCRIPTS_DIR e =
     path_join [dirname e, js ''.claude'', js ''skills'', js ''ui-ux-pro-max'', js ''scripts'']"

definition MIME_TYPES :: "(jsstring \<times> jsstring) list" where
  "MIME_TYPES =
     [(js ''.html'', js ''text/html; charset=utf-8''),
      (js ''.css'', js ''text/css''),
      (js ''.js'', js ''application/javascript''),
      (js ''.json'', js ''application/json''),
      (js ''.png'', js ''image/png''),
      (js ''.jpg'', js ''image/jpeg''),
      (js ''.gif'', js ''image/gif''),
      (js ''.svg'', js ''image/svg+xml''),
      (js ''.ico'', js ''image/x-icon''),
      (js ''.woff'', js ''font/woff''),
      (js ''.woff2'', js ''font/woff2'')]"

text \<open>\<open>MIME_TYPES[ext] || fallback\<close>: every entry of the table is a non-empty string.\<close>

definition mime_or :: "jsstring \<Rightarrow> jsstring \<Rightarrow> jsstring" where
  "mime_or ext fallback = (case map_of MIME_TYPES ext of None \<Rightarrow> fallback | Some t \<Rightarrow> t)"

section \<open>generateId\<close>

definition digit36 :: "nat \<Rightarrow> jschar" where
  "digit36 d = (if d < 10 then of_nat (48 + d) else of_nat (97 + (d - 10)))"

text \<open>\<open>n.toString(36)\<close> for a non-negative integer.\<close>

function toString36 :: "nat \<Rightarrow> jsstring" where
  "toString36 n = (if n < 36 then [digit36 n] else toString36 (n div 36) @ [digit36 (n mod 36)])"
  by pat_completeness auto
termination
  by (relation "measure (\<lambda>n. n)") auto

declare toString36.simps [simp del]

text \<open>
  \<open>Math.random().toString(36)\<close> is \<open>0\<close>, or \<open>0.\<close> followed by base-36 digits.
\<close>

definition Math_random_36 :: "env \<Rightarrow> jsstring" where
  "Math_random_36 e =
     (if random_digits e = [] then js ''0''
      else js ''0.'' @ map (\<lambda>d. digit36 (d mod 36)) (random_digits e))"

text \<open>\<open>Date.now().toString(36) + Math.random().toString(36).substr(2, 9)\<close>\<close>

definition generateId :: "env \<Rightarrow> jsstring" where
  "generateId e = toString36 (Date_now e) @ take 9 (drop 2 (Math_random_36 e))"

section \<open>generatePresentation\<close>

definition msg_no_output :: jsstring where
  "msg_no_output = [0x751F, 0x6210, 0x5931, 0x8D25, 0xFF0C, 0x672A, 0x627E, 0x5230, 0x8F93, 0x51FA, 0x6587, 0x4EF6]"

definition msg_failed :: jsstring where
  "msg_failed = [0x751F, 0x6210, 0x5931, 0x8D25]"

definition is_generated :: "jsstring \<Rightarrow> bool" where
  "is_generated f = (startsWith f (js ''presentation_'') \<and> endsWith f (js ''.html''))"

text \<open>\<open>fs.readdirSync(OUTPUT_DIR)\<close> in the \<open>close\<close> listener: the names of the entries.\<close>

definition readdirSync_output :: "proc_exit \<Rightarrow> jsstring list" where
  "readdirSync_output p = map fst (output_entries p)"

text \<open>The \<open>close\<close> listener: the value the promise is resolved with.\<close>

definition on_close :: "proc_exit \<Rightarrow> jsval" where
  "on_close p =
     (if exit_code p = Some 0 then
        (let found = rev (sort (filter is_generated (readdirSync_output p)))
         in if length found > 0 then
              JObj [(js ''success'', JBool True),
                    (js ''url'', JStr (js ''/output/'' @ hd found)),
                    (js ''filename'', JStr (hd found))]
            else
              JObj [(js ''success'', JBool False),
                    (js ''error'', JStr msg_no_output)])
      else
        JObj [(js ''success'', JBool False),
              (js ''error'', JStr (if stderr_text p \<noteq> [] then stderr_text p else msg_failed))])"

text \<open>
  The argument vector, in the order the array literal is evaluated. Reading
  \<open>options.topic\<close> throws when \<open>options\<close> is \<open>null\<close>; \<open>String(options.duration || 15)\<close>
  is \<open>'15'\<close> for a falsy duration and may throw for an object or array.
\<close>

definition spawn_args :: "env \<Rightarrow> jsval \<Rightarrow> js_error + jsval list" where
  "spawn_args e options =
     (case get_field options (js ''topic'') of
        Inl err \<Rightarrow> Inl err
      | Inr topic \<Rightarrow>
          (case (if truthy (property options (js ''duration''))
                 then String_js (Number_toString e) (property options (js ''duration''))
                 else Inr (js ''15'')) of
             Inl err \<Rightarrow> Inl err
           | Inr duration \<Rightarrow>
               Inr [JStr (path_join [SCRIPTS_DIR e, js ''search.py'']),
                    topic,
                    JStr (js ''--presentation''),
                    JStr (js ''--type''),
                    js_or (property options (js ''type'')) (JStr (js ''business_presentation'')),
                    JStr (js ''--audience''),
                    js_or (property options (js ''audience'')) (JStr (js ''general_employees'')),
                    JStr (js ''--duration''),
                    JStr duration,
                    JStr (js ''--tone''),
                    js_or (property options (js ''tone'')) (JStr (js ''professional'')),
                    JStr (js ''--industry''),
                    js_or (property options (js ''industry'')) (JStr []),
                    JStr (js ''--output''),
                    JStr (path_join [OUTPUT_DIR e,
                                     js ''presentation_'' @ generateId e @ js ''.html'']),
                    JStr (js ''--presentation-format''),
                    JStr (js ''reveal_js'')]))"

datatype 'a promise = Resolved 'a | Rejected js_error

text \<open>
  \<open>spawn(command, args, options)\<close>. Node checks the arguments before it starts
  anything: a string argument that holds a NUL character makes \<open>spawn\<close> throw. The
  platform may refuse the call as well, and then \<open>spawn\<close> throws too. Otherwise the
  child is started; it is taken to start and to end (the code has no \<open>error\<close> listener
  and no timeout).
\<close>

definition has_null_byte :: "jsval \<Rightarrow> bool" where
  "has_null_byte a = (case a of JStr s \<Rightarrow> 0 \<in> set s | _ \<Rightarrow> False)"

definition spawn :: "env \<Rightarrow> spawn_call \<Rightarrow> js_error + proc_exit" where
  "spawn e call =
     (if (\<exists>a \<in> set (args call). has_null_byte a) then Inl (spawn_error e call)
      else if spawn_rejects e call then Inl (spawn_error e call)
      else Inr (child_process e call))"

text \<open>
  The promise and the processes started. An exception in the executor, while the
  argument vector is built or from \<open>spawn\<close> itself, rejects the promise and no process
  is started. Otherwise the promise is resolved by the \<open>close\<close> listener.
\<close>

definition generatePresentation :: "env \<Rightarrow> jsval \<Rightarrow> jsval promise \<times> spawn_call list" where
  "generatePresentation e options =
     (case spawn_args e options of
        Inl err \<Rightarrow> (Rejected err, [])
      | Inr argv \<Rightarrow>
          (let call = \<lparr>command = js ''python3'', args = argv, cwd = SCRIPTS_DIR e\<rparr>
           in case spawn e call of
                Inl err \<Rightarrow> (Rejected err, [])
              | Inr p \<Rightarrow> (Resolved (on_close p), [call])))"

section \<open>Requests and responses\<close>

record request =
  req_method :: jsstring
  req_url :: jsstring
  req_body :: jsstring

text \<open>
  A response body: nothing (\<open>res.end()\<close>), a string, the \<open>JSON.stringify\<close> of a value, or
  the bytes of a file.
\<close>

datatype body = NoBody | Text jsstring | JSON_stringify jsval | Bytes "8 word list"

record response =
  status :: nat
  headers :: "(jsstring \<times> jsstring) list"
  content :: body

text \<open>
  A call of the handler ends in a response, or in an exception that nothing catches
  (then no response is completed). The line the handler writes to the console is not
  part of the result.
\<close>

datatype outcome = Responded response | Threw js_error

record handled =
  reply :: outcome
  spawned :: "spawn_call list"

text \<open>The three headers set by \<open>res.setHeader\<close> before any route is looked at.\<close>

definition cors_headers :: "(jsstring \<times> jsstring) list" where
  "cors_headers =
     [(js ''Access-Control-Allow-Origin'', js ''*''),
      (js ''Access-Control-Allow-Methods'', js ''GET, POST, OPTIONS''),
      (js ''Access-Control-Allow-Headers'', js ''Content-Type'')]"

text \<open>\<open>res.writeHead(st, hs); res.end(b)\<close> after the CORS headers were set.\<close>

definition respond :: "nat \<Rightarrow> (jsstring \<times> jsstring) list \<Rightarrow> body \<Rightarrow> outcome" where
  "respond st hs b = Responded \<lparr>status = st, headers = cors_headers @ hs, content = b\<rparr>"

definition json_type :: "(jsstring \<times> jsstring) list" where
  "json_type = [(js ''Content-Type'', js ''application/json'')]"

definition html_type :: "(jsstring \<times> jsstring) list" where
  "html_type = [(js ''Content-Type'', js ''text/html; charset=utf-8'')]"

section \<open>The fixed catalogs\<close>

definition health_status :: jsval where
  "health_status =
     JObj [(js ''status'', JStr (js ''ok'')), (js ''message'', JStr (js ''PPT Generator Server''))]"

definition templates_catalog :: jsval where
  "templates_catalog = JObj [(js ''templates'', JArr [
     JObj [(js ''id'', JStr (js ''modern-elegant'')), (js ''name'', JStr ([0x73B0, 0x4EE3, 0x4F18, 0x96C5])), (js ''description'', JStr ([0x6E10, 0x53D8, 0x80CC, 0x666F, 0xFF0C, 0x73B0, 0x4EE3, 0x6392, 0x7248, 0xFF0C, 0x9002, 0x5408, 0x4EA7, 0x54C1, 0x53D1, 0x5E03])), (js ''preview'', JStr (js ''linear-gradient(135deg, #667eea 0%, #764ba2 100%)''))],
     JObj [(js ''id'', JStr (js ''corporate-blue'')), (js ''name'', JStr ([0x4F01, 0x4E1A, 0x84DD, 0x8C03])), (js ''description'', JStr ([0x4E13, 0x4E1A, 0x5546, 0x52A1, 0x98CE, 0x683C, 0xFF0C, 0x9002, 0x5408, 0x4F01, 0x4E1A, 0x6C47, 0x62A5])), (js ''preview'', JStr (js ''linear-gradient(180deg, #1a365d 0%, #2b6cb0 100%)''))],
     JObj [(js ''id'', JStr (js ''minimal-clean'')), (js ''name'', JStr ([0x6781, 0x7B80, 0x7EAF, 0x51C0])), (js ''description'', JStr ([0x6781, 0x7B80, 0x4E3B, 0x4E49, 0x8BBE, 0x8BA1, 0xFF0C, 0x9002, 0x5408, 0x6280, 0x672F, 0x5206, 0x4EAB])), (js ''preview'', JStr (js ''#ffffff''))],
     JObj [(js ''id'', JStr (js ''creative-bold'')), (js ''name'', JStr ([0x521B, 0x610F, 0x5927, 0x80C6])), (js ''description'', JStr ([0x8D5B, 0x535A, 0x670B, 0x514B, 0x98CE, 0x683C, 0xFF0C, 0x9002, 0x5408, 0x521B, 0x610F, 0x63D0, 0x6848])), (js ''preview'', JStr (js ''linear-gradient(135deg, #0a0a0f 0%, #1a1a2e 50%, #16213e 100%)''))]])]"

definition types_catalog :: jsval where
  "types_catalog = JObj [(js ''types'', JArr [
     JObj [(js ''id'', JStr (js ''business_presentation'')), (js ''name'', JStr ([0x5546, 0x4E1A, 0x6C47, 0x62A5])), (js ''icon'', JStr ([0xD83D, 0xDCCA])), (js ''desc'', JStr ([0x5B63, 0x5EA6, 0x603B, 0x7ED3, 0x3001, 0x8FDB, 0x5EA6, 0x6C47, 0x62A5]))],
     JObj [(js ''id'', JStr (js ''investor_pitch'')), (js ''name'', JStr ([0x6295, 0x8D44, 0x8DEF, 0x6F14])), (js ''icon'', JStr ([0xD83C, 0xDFAF])), (js ''desc'', JStr ([0x521B, 0x4E1A, 0x878D, 0x8D44, 0x3001] @ js ''VC '' @ [0x6F14, 0x793A]))],
     JObj [(js ''id'', JStr (js ''product_launch'')), (js ''name'', JStr ([0x4EA7, 0x54C1, 0x53D1, 0x5E03])), (js ''icon'', JStr ([0xD83D, 0xDE80])), (js ''desc'', JStr ([0x65B0, 0x54C1, 0x53D1, 0x5E03, 0x3001, 0x529F, 0x80FD, 0x4ECB, 0x7ECD]))],
     JObj [(js ''id'', JStr (js ''training_workshop'')), (js ''name'', JStr ([0x57F9, 0x8BAD, 0x7814, 0x8BA8])), (js ''icon'', JStr ([0xD83D, 0xDCDA])), (js ''desc'', JStr ([0x4F01, 0x4E1A, 0x57F9, 0x8BAD, 0x3001, 0x5DE5, 0x4F5C, 0x574A]))],
     JObj [(js ''id'', JStr (js ''webinar'')), (js ''name'', JStr ([0x5728, 0x7EBF, 0x8BB2, 0x5EA7])), (js ''icon'', JStr ([0xD83C, 0xDFA5])), (js ''desc'', JStr ([0x7F51, 0x7EDC, 0x7814, 0x8BA8, 0x4F1A, 0x3001, 0x76F4, 0x64AD]))],
     JObj [(js ''id'', JStr (js ''keynote'')), (js ''name'', JStr ([0x4E3B, 0x9898, 0x6F14, 0x8BB2])), (js ''icon'', JStr ([0xD83C, 0xDFA4])), (js ''desc'', JStr ([0x4F1A, 0x8BAE, 0x6F14, 0x8BB2, 0x3001, 0x8BBA, 0x575B]))],
     JObj [(js ''id'', JStr (js ''sales_pitch'')), (js ''name'', JStr ([0x9500, 0x552E, 0x6F14, 0x793A])), (js ''icon'', JStr ([0xD83D, 0xDCB0])), (js ''desc'', JStr ([0x5BA2, 0x6237, 0x63D0, 0x6848, 0x3001, 0x5546, 0x52A1, 0x6D3D, 0x8C08]))]])]"

definition audiences_catalog :: jsval where
  "audiences_catalog = JObj [(js ''audiences'', JArr [
     JObj [(js ''id'', JStr (js ''general_employees'')), (js ''name'', JStr ([0x666E, 0x901A, 0x5458, 0x5DE5])), (js ''icon'', JStr ([0xD83D, 0xDC65]))],
     JObj [(js ''id'', JStr (js ''senior_executives'')), (js ''name'', JStr ([0x9AD8, 0x7BA1, 0x9886, 0x5BFC])), (js ''icon'', JStr ([0xD83D, 0xDC54]))],
     JObj [(js ''id'', JStr (js ''investors'')), (js ''name'', JStr ([0x6295, 0x8D44, 0x4EBA, 0x58EB])), (js ''icon'', JStr ([0xD83D, 0xDCBC]))],
     JObj [(js ''id'', JStr (js ''clients'')), (js ''name'', JStr ([0x5BA2, 0x6237, 0x4F19, 0x4F34])), (js ''icon'', JStr ([0xD83E, 0xDD1D]))],
     JObj [(js ''id'', JStr (js ''technical_team'')), (js ''name'', JStr ([0x6280, 0x672F, 0x56E2, 0x961F])), (js ''icon'', JStr ([0xD83D, 0xDCBB]))],
     JObj [(js ''id'', JStr (js ''students'')), (js ''name'', JStr ([0x5B66, 0x751F, 0x7FA4, 0x4F53])), (js ''icon'', JStr ([0xD83C, 0xDF93]))]])]"

text \<open>The inline document sent when no static file matches.\<close>

definition landing_page :: jsstring where
  "landing_page = concat [
     [0x000A],
     js ''<!DOCTYPE html>'' @ [0x000A],
     js ''<html>'' @ [0x000A],
     js ''<head>'' @ [0x000A],
     js ''  <meta charset='' @ [0x0022] @ js ''utf-8'' @ [0x0022] @ js ''>'' @ [0x000A],
     js ''  <title>PPT Generator</title>'' @ [0x000A],
     js ''  <style>'' @ [0x000A],
     js ''    body {'' @ [0x000A],
     js ''      font-family: -apple-system, BlinkMacSystemFont, '' @ [0x0027] @ js ''Segoe UI'' @ [0x0027] @ js '', Roboto, sans-serif;'' @ [0x000A],
     js ''      max-width: 800px;'' @ [0x000A],
     js ''      margin: 50px auto;'' @ [0x000A],
     js ''      padding: 20px;'' @ [0x000A],
     js ''      background: linear-gradient(135deg, #667eea 0%, #764ba2 100%);'' @ [0x000A],
     js ''      min-height: 100vh;'' @ [0x000A],
     js ''      color: white;'' @ [0x000A],
     js ''    }'' @ [0x000A],
     js ''    h1 { font-size: 2.5em; margin-bottom: 20px; }'' @ [0x000A],
     js ''    p { font-size: 1.2em; opacity: 0.9; }'' @ [0x000A],
     js ''    .links { margin-top: 30px; }'' @ [0x000A],
     js ''    a {'' @ [0x000A],
     js ''      display: inline-block;'' @ [0x000A],
     js ''      padding: 15px 30px;'' @ [0x000A],
     js ''      margin: 10px;'' @ [0x000A],
     js ''      background: rgba(255,255,255,0.2);'' @ [0x000A],
     js ''      color: white;'' @ [0x000A],
     js ''      text-decoration: none;'' @ [0x000A],
     js ''      border-radius: 10px;'' @ [0x000A],
     js ''      backdrop-filter: blur(10px);'' @ [0x000A],
     js ''      transition: all 0.3s;'' @ [0x000A],
     js ''    }'' @ [0x000A],
     js ''    a:hover { background: rgba(255,255,255,0.3); transform: translateY(-2px); }'' @ [0x000A],
     js ''    .info {'' @ [0x000A],
     js ''      background: rgba(0,0,0,0.2);'' @ [0x000A],
     js ''      padding: 20px;'' @ [0x000A],
     js ''      border-radius: 10px;'' @ [0x000A],
     js ''      margin-top: 30px;'' @ [0x000A],
     js ''    }'' @ [0x000A],
     js ''  </style>'' @ [0x000A],
     js ''</head>'' @ [0x000A],
     js ''<body>'' @ [0x000A],
     js ''  <h1>'' @ [0xD83C, 0xDFAF] @ js '' PPT Generator</h1>'' @ [0x000A],
     js ''  <p>AI '' @ [0x667A, 0x80FD, 0x6F14, 0x793A, 0x6587, 0x7A3F, 0x751F, 0x6210, 0x5E73, 0x53F0] @ js ''</p>'' @ [0x000A],
     js ''  '' @ [0x000A],
     js ''  <div class='' @ [0x0022] @ js ''links'' @ [0x0022] @ js ''>'' @ [0x000A],
     js ''    <a href='' @ [0x0022] @ js ''/'' @ [0x0022] @ js ''>'' @ [0xD83D, 0xDCF1] @ js '' '' @ [0x6253, 0x5F00, 0x524D, 0x7AEF, 0x754C, 0x9762] @ js ''</a>'' @ [0x000A],
     js ''  </div>'' @ [0x000A],
     js ''  '' @ [0x000A],
     js ''  <div class='' @ [0x0022] @ js ''info'' @ [0x0022] @ js ''>'' @ [0x000A],
     js ''    <h2>'' @ [0x4F7F, 0x7528, 0x8BF4, 0x660E] @ js ''</h2>'' @ [0x000A],
     js ''    <p>1. '' @ [0x5728, 0x524D, 0x7AEF, 0x754C, 0x9762, 0x8F93, 0x5165, 0x6F14, 0x793A, 0x4E3B, 0x9898] @ js ''</p>'' @ [0x000A],
     js ''    <p>2. '' @ [0x9009, 0x62E9, 0x6A21, 0x677F, 0x3001, 0x7C7B, 0x578B, 0x3001, 0x53D7, 0x4F17, 0x7B49] @ js ''</p>'' @ [0x000A],
     js ''    <p>3. '' @ [0x70B9, 0x51FB, 0x751F, 0x6210, 0xFF0C, 0x7B49, 0x5F85] @ js '' AI '' @ [0x521B, 0x5EFA, 0x6F14, 0x793A, 0x6587, 0x7A3F] @ js ''</p>'' @ [0x000A],
     js ''    <p>4. '' @ [0x9884, 0x89C8, 0x5E76, 0x4E0B, 0x8F7D, 0x751F, 0x6210, 0x7684] @ js '' HTML '' @ [0x6587, 0x4EF6] @ js ''</p>'' @ [0x000A],
     js ''  </div>'' @ [0x000A],
     js ''</body>'' @ [0x000A],
     js ''</html>'' @ [0x000A],
     js ''    '']"

section \<open>The file system\<close>

definition existsSync :: "env \<Rightarrow> jsstring \<Rightarrow> bool" where
  "existsSync e p = (files e p \<noteq> None)"

text \<open>\<open>fs.statSync(p).isFile()\<close>, called only on a path that exists.\<close>

definition isFile :: "env \<Rightarrow> jsstring \<Rightarrow> bool" where
  "isFile e p = (case files e p of Some (File b) \<Rightarrow> True | _ \<Rightarrow> False)"

definition readFileSync :: "env \<Rightarrow> jsstring \<Rightarrow> js_error + 8 word list" where
  "readFileSync e p =
     (case files e p of
        Some (File b) \<Rightarrow> Inr b
      | Some Directory \<Rightarrow> Inl (SystemError (js ''EISDIR: illegal operation on a directory, read''))
      | None \<Rightarrow> Inl (SystemError (js ''ENOENT: no such file or directory'')))"

section \<open>handleRequest\<close>

definition msg_topic_required :: jsstring where
  "msg_topic_required = [0x8BF7, 0x8F93, 0x5165, 0x6F14, 0x793A, 0x4E3B, 0x9898]"

definition not_found_html :: jsstring where
  "not_found_html = js ''<h1>404 - '' @ [0x6587, 0x4EF6, 0x672A, 0x627E, 0x5230] @ js ''</h1>''"

definition failure :: "jsstring \<Rightarrow> jsval" where
  "failure m = JObj [(js ''success'', JBool False), (js ''error'', JStr m)]"

text \<open>
  The \<open>end\<close> listener of the generation route, \<open>body\<close> being the whole request body.
  Everything inside is under one \<open>try\<close>: whatever is thrown becomes a 500 response.
\<close>

definition generate_route :: "env \<Rightarrow> jsstring \<Rightarrow> handled" where
  "generate_route e body =
     (case JSON_parse e body of
        Inl err \<Rightarrow> \<lparr>reply = respond 500 json_type (JSON_stringify (failure (message err))), spawned = []\<rparr>
      | Inr options \<Rightarrow>
          (case get_field options (js ''topic'') of
             Inl err \<Rightarrow>
               \<lparr>reply = respond 500 json_type (JSON_stringify (failure (message err))), spawned = []\<rparr>
           | Inr topic \<Rightarrow>
               if \<not> truthy topic then
                 \<lparr>reply = respond 400 json_type (JSON_stringify (failure msg_topic_required)),
                  spawned = []\<rparr>
               else
                 (case generatePresentation e options of
                    (Rejected err, calls) \<Rightarrow>
                      \<lparr>reply = respond 500 json_type (JSON_stringify (failure (message err))),
                       spawned = calls\<rparr>
                  | (Resolved result, calls) \<Rightarrow>
                      \<lparr>reply = respond 200 json_type (JSON_stringify result), spawned = calls\<rparr>)))"

definition output_route :: "env \<Rightarrow> jsstring \<Rightarrow> outcome" where
  "output_route e path =
     (let filename = basename path;
          filePath = path_join [OUTPUT_DIR e, filename]
      in if existsSync e filePath then
           (let ext = toLowerCase e (extname filename)
            in case readFileSync e filePath of
                 Inl err \<Rightarrow> Threw err
               | Inr data \<Rightarrow>
                   respond 200 [(js ''Content-Type'', mime_or ext (js ''text/html''))] (Bytes data))
         else respond 404 html_type (Text not_found_html))"

definition static_route :: "env \<Rightarrow> jsstring \<Rightarrow> outcome" where
  "static_route e path =
     (let filePath =
            (if path = js ''/'' \<or> path = js ''/index.html''
             then path_join [FRONTEND_DIR e, js ''index.html'']
             else path_join [FRONTEND_DIR e, path]);
          ext = toLowerCase e (extname filePath)
      in if existsSync e filePath \<and> isFile e filePath then
           (case readFileSync e filePath of
              Inl err \<Rightarrow> Threw err
            | Inr data \<Rightarrow>
                respond 200 [(js ''Content-Type'', mime_or ext (js ''application/octet-stream''))]
                  (Bytes data))
         else respond 404 html_type (Text landing_page))"

definition handleRequest :: "env \<Rightarrow> request \<Rightarrow> handled" where
  "handleRequest e req =
     (case new_URL e (req_url req) of
        None \<Rightarrow> \<lparr>reply = Threw (TypeError (js ''Invalid URL'')), spawned = []\<rparr>
      | Some url \<Rightarrow>
          if req_method req = js ''OPTIONS'' then
            \<lparr>reply = respond 204 [] NoBody, spawned = []\<rparr>
          else if pathname url = js ''/api/health'' then
            \<lparr>reply = respond 200 json_type (JSON_stringify health_status), spawned = []\<rparr>
          else if pathname url = js ''/api/templates'' then
            \<lparr>reply = respond 200 json_type (JSON_stringify templates_catalog), spawned = []\<rparr>
          else if pathname url = js ''/api/presentation-types'' then
            \<lparr>reply = respond 200 json_type (JSON_stringify types_catalog), spawned = []\<rparr>
          else if pathname url = js ''/api/audiences'' then
            \<lparr>reply = respond 200 json_type (JSON_stringify audiences_catalog), spawned = []\<rparr>
          else if pathname url = js ''/api/generate'' \<and> req_method req = js ''POST'' then
            generate_route e (req_body req)
          else if startsWith (pathname url) (js ''/output/'') then
            \<lparr>reply = output_route e (pathname url), spawned = []\<rparr>
          else
            \<lparr>reply = static_route e (pathname url), spawned = []\<rparr>)"

section \<open>A sample environment\<close>

text \<open>Concrete values at which the theorems below are instantiated.\<close>

definition sample_exit :: proc_exit where
  "sample_exit =
     \<lparr>exit_code = Some 0, stdout_text = [], stderr_text = [],
      output_entries = [(js ''presentation_a1.html'', 10), (js ''notes.txt'', 20),
                        (js ''presentation_b2.html'', 30), (js ''presentation_b2.pptx'', 40)]\<rparr>"

definition sample_options :: jsval where
  "sample_options = JObj [(js ''topic'', JStr (js ''Q4 Sales Review''))]"

definition sample_env :: env where
  "sample_env =
     \<lparr>scheme_URL = (\<lambda>t. None),
      authority_ok = (\<lambda>a. False),
      escapes_caret = True,
      JSON_parse = (\<lambda>b. Inr sample_options),
      Number_toString = (\<lambda>n. js ''30''),
      toLowerCase = (\<lambda>s. s),
      install_dir = js ''srv/app'',
      Date_now = 1234,
      random_digits = [4, 15, 35, 34, 24, 8, 2, 22, 31, 34, 27],
      child_process = (\<lambda>c. sample_exit),
      spawn_rejects = (\<lambda>c. False),
      spawn_error = (\<lambda>c. TypeError (js ''The argument must be a string without null bytes'')),
      files = (\<lambda>p. if p = js ''/srv/app/output/passwd'' then Some (File [1, 2, 3])
                    else if p = js ''/srv/app/output/assets'' then Some Directory
                    else None)\<rparr>"

text \<open>
  Request bodies as parsed: a blank topic, a duration that cannot be printed, a topic
  and an industry that hold a NUL character.
\<close>

definition blank_topic_options :: jsval where
  "blank_topic_options = JObj [(js ''topic'', JStr (js ''   ''))]"

definition odd_duration_options :: jsval where
  "odd_duration_options =
     JObj [(js ''topic'', JStr (js ''Q4 Sales Review'')),
           (js ''duration'', JObj [(js ''toString'', JNum (Finite 1))])]"



definition generate_request :: request where
  "generate_request = \<lparr>req_method = js ''POST'', req_url = js ''/api/generate'', req_body = []\<rparr>"

text \<open>An output directory where an old file has the greatest name.\<close>

definition stale_exit :: proc_exit where
  "stale_exit =
     \<lparr>exit_code = Some 0, stdout_text = [], stderr_text = [],
      output_entries = [(js ''presentation_z.html'', 1), (js ''presentation_a1.html'', 2)]\<rparr>"

section \<open>Auxiliary facts\<close>

lemma js_noteq_simps [simp]:
  "js ''GET'' \<noteq> js ''OPTIONS''" "js ''POST'' \<noteq> js ''OPTIONS''"
  by (simp_all add: js_def)

lemma js_append: "js a @ js b = js (a @ b)"
  by (simp add: js_def)

lemma sorted_le_last:
  fixes ys :: "'a::linorder list"
  shows "sorted ys \<Longrightarrow> x \<in> set ys \<Longrightarrow> x \<le> last ys"
  by (induction ys) auto

lemma hd_rev_sort_greatest:
  fixes xs :: "'a::linorder list"
  assumes "xs \<noteq> []"
  shows "hd (rev (sort xs)) \<in> set xs \<and> (\<forall>x \<in> set xs. x \<le> hd (rev (sort xs)))"
proof -
  have ne: "sort xs \<noteq> []"
    using assms by (metis length_sort length_0_conv)
  then have h: "hd (rev (sort xs)) = last (sort xs)"
    by (simp add: hd_rev)
  have mem: "last (sort xs) \<in> set xs"
    using ne last_in_set [of "sort xs"] by simp
  have ub: "\<forall>x \<in> set xs. x \<le> last (sort xs)"
    using sorted_le_last [of "sort xs"] by simp
  show ?thesis using h mem ub by simp
qed

lemma unat_digit36: "d < 36 \<Longrightarrow> unat (digit36 d) = (if d < 10 then 48 + d else 87 + d)"
proof -
  assume d: "d < 36"
  have "unat (word_of_nat (48 + d) :: 16 word) = 48 + d"
    using d by (subst unat_of_nat) simp
  moreover have "unat (word_of_nat (97 + (d - 10)) :: 16 word) = 97 + (d - 10)"
    using d by (subst unat_of_nat) simp
  ultimately show ?thesis
    unfolding digit36_def by (auto simp del: of_nat_add)
qed

lemma digit36_not_NUL: "d < 36 \<Longrightarrow> digit36 d \<noteq> 0"
proof
  assume "d < 36" and "digit36 d = 0"
  then have "unat (digit36 d) = 0" by simp
  then show False using unat_digit36 [OF \<open>d < 36\<close>] by (simp split: if_splits)
qed

lemma toString36_small: "n < 36 \<Longrightarrow> toString36 n = [digit36 n]"
  by (simp add: toString36.simps)

lemma toString36_large: "36 \<le> n \<Longrightarrow> toString36 n = toString36 (n div 36) @ [digit36 (n mod 36)]"
  by (subst toString36.simps) simp

lemma toString36_no_NUL: "0 \<notin> set (toString36 n)"
proof (induction n rule: toString36.induct)
  case (1 n)
  show ?case
  proof (cases "n < 36")
    case True
    then show ?thesis using digit36_not_NUL [of n] by (simp add: toString36_small)
  next
    case False
    then show ?thesis
      using "1.IH" digit36_not_NUL [of "n mod 36"] by (simp add: toString36_large)
  qed
qed

lemma generateId_no_NUL: "0 \<notin> set (generateId e)"
proof -
  have "0 \<notin> set (Math_random_36 e)"
    using digit36_not_NUL by (auto simp: Math_random_36_def js_def)
  then have "0 \<notin> set (take 9 (drop 2 (Math_random_36 e)))"
    by (meson in_set_dropD in_set_takeD)
  then show ?thesis
    using toString36_no_NUL by (simp add: generateId_def)
qed

section \<open>Facts about paths\<close>

lemma split_slash_not_Nil [simp]: "split_slash p \<noteq> []"
  by (induction p) (auto simp: Let_def)

lemma split_slash_no_slash: "s \<in> set (split_slash p) \<Longrightarrow> slash \<notin> set s"
proof (induction p arbitrary: s)
  case Nil
  then show ?case by simp
next
  case (Cons c cs)
  obtain x xs where r: "split_slash cs = x # xs"
    using split_slash_not_Nil [of cs] by (cases "split_slash cs") auto
  have x: "slash \<notin> set x" and xs: "\<And>t. t \<in> set xs \<Longrightarrow> slash \<notin> set t"
    using Cons.IH r by auto
  show ?case
    using Cons.prems r x xs by (auto simp: Let_def split: if_splits)
qed

lemma split_slash_single: "slash \<notin> set b \<Longrightarrow> split_slash b = [b]"
  by (induction b) (auto simp: Let_def)

lemma split_slash_prepend:
  "slash \<notin> set s \<Longrightarrow> split_slash (s @ slash # rest) = s # split_slash rest"
  by (induction s) (auto simp: Let_def)

lemma split_slash_append:
  "slash \<notin> set b \<Longrightarrow> split_slash (a @ slash # b) = split_slash a @ [b]"
proof (induction a)
  case Nil
  then show ?case by (simp add: split_slash_single)
next
  case (Cons c a)
  obtain x xs where r: "split_slash a = x # xs"
    using split_slash_not_Nil [of a] by (cases "split_slash a") auto
  show ?case using Cons r by (simp add: Let_def)
qed

lemma split_join_slash:
  "segs \<noteq> [] \<Longrightarrow> \<forall>s \<in> set segs. slash \<notin> set s \<Longrightarrow> split_slash (join_slash segs) = segs"
proof (induction segs rule: join_slash.induct)
  case 1
  then show ?case by simp
next
  case (2 s)
  then show ?case by (simp add: split_slash_single)
next
  case (3 s t ts)
  then show ?case by (simp add: split_slash_prepend)
qed

lemma join_slash_snoc: "st \<noteq> [] \<Longrightarrow> join_slash (st @ [f]) = join_slash st @ slash # f"
  by (induction st rule: join_slash.induct) auto

lemma join_slash_not_Nil: "st \<noteq> [] \<Longrightarrow> \<forall>s \<in> set st. s \<noteq> [] \<Longrightarrow> join_slash st \<noteq> []"
  by (induction st rule: join_slash.induct) auto

lemma normalize_step_plain: "plain seg \<Longrightarrow> normalize_step a res seg = res @ [seg]"
  by (simp add: normalize_step_def plain_def)

lemma foldl_normalize_plain:
  "\<forall>s \<in> set xs. plain s \<Longrightarrow> foldl (normalize_step a) acc xs = acc @ xs"
  by (induction xs arbitrary: acc) (simp_all add: normalize_step_plain)

lemma normalize_step_keeps_plain:
  assumes "\<forall>s \<in> set res. plain s" and "slash \<notin> set seg"
  shows "\<forall>s \<in> set (normalize_step False res seg). plain s"
proof -
  have "set (butlast res) \<subseteq> set res"
    by (auto dest: in_set_butlastD)
  then show ?thesis
    using assms by (auto simp: normalize_step_def plain_def)
qed

lemma foldl_normalize_keeps_plain:
  "\<forall>s \<in> set acc. plain s \<Longrightarrow> \<forall>s \<in> set xs. slash \<notin> set s \<Longrightarrow>
   \<forall>s \<in> set (foldl (normalize_step False) acc xs). plain s"
proof (induction xs arbitrary: acc)
  case Nil
  then show ?case by simp
next
  case (Cons x xs)
  have "\<forall>s \<in> set (normalize_step False acc x). plain s"
    using Cons.prems by (intro normalize_step_keeps_plain) auto
  then show ?case using Cons by simp
qed

text \<open>
  Joining an absolute directory with a plain name gives a path made of plain
  components; joining that path with a further plain name appends the name.
\<close>

lemma path_normalize_absolute:
  assumes "j \<noteq> []" "hd j = slash" "last j \<noteq> slash"
    and "foldl (normalize_step False) [] (split_slash j) = st" "join_slash st \<noteq> []"
  shows "path_normalize j = slash # join_slash st"
  using assms by (simp add: path_normalize_def normalizeString_def Let_def)

lemma path_join_absolute:
  assumes d: "d \<noteq> []" "hd d = slash" and n: "plain name"
  shows "\<exists>st. path_join [d, name] = slash # join_slash (st @ [name]) \<and> (\<forall>s \<in> set st. plain s)"
proof -
  define st where "st = foldl (normalize_step False) [] (split_slash d)"
  define j where "j = d @ slash # name"
  have st: "\<forall>s \<in> set st. plain s"
    unfolding st_def by (rule foldl_normalize_keeps_plain) (auto dest: split_slash_no_slash)
  have nm: "name \<noteq> []" "slash \<notin> set name" using n by (auto simp: plain_def)
  have sp: "split_slash j = split_slash d @ [name]"
    unfolding j_def using nm by (simp add: split_slash_append)
  have fo: "foldl (normalize_step False) [] (split_slash j) = st @ [name]"
    by (simp add: sp st_def normalize_step_plain [OF n])
  have ne: "join_slash (st @ [name]) \<noteq> []"
    using st nm by (intro join_slash_not_Nil) (auto simp: plain_def)
  have j: "j \<noteq> []" "hd j = slash" "last j \<noteq> slash"
    unfolding j_def using d nm by (auto dest: last_in_set)
  have "path_join [d, name] = path_normalize j"
    using d nm by (simp add: path_join_def j_def)
  also have "\<dots> = slash # join_slash (st @ [name])"
    by (rule path_normalize_absolute [OF j fo ne])
  finally show ?thesis using st by blast
qed

lemma path_join_child:
  assumes st: "\<forall>s \<in> set st. plain s" "st \<noteq> []" and n: "plain name"
  shows "path_join [slash # join_slash st, name] = slash # join_slash st @ slash # name"
proof -
  define d where "d = slash # join_slash st"
  define j where "j = d @ slash # name"
  have nm: "name \<noteq> []" "slash \<notin> set name" using n by (auto simp: plain_def)
  have noslash: "\<forall>s \<in> set st. slash \<notin> set s" using st by (auto simp: plain_def)
  have "split_slash d = [] # split_slash (join_slash st)"
    by (simp add: d_def Let_def)
  then have spd: "split_slash d = [] # st"
    by (simp add: split_join_slash [OF st(2) noslash])
  have sp: "split_slash j = [] # st @ [name]"
    unfolding j_def using nm by (simp add: split_slash_append spd)
  have all: "\<forall>s \<in> set (st @ [name]). plain s" using st n by auto
  have "foldl (normalize_step False) [] ([] # st @ [name]) =
        foldl (normalize_step False) [] (st @ [name])"
    by (simp add: normalize_step_def)
  also have "\<dots> = st @ [name]"
    using foldl_normalize_plain [OF all, of False "[]"] by simp
  finally have fo: "foldl (normalize_step False) [] (split_slash j) = st @ [name]"
    by (simp only: sp)
  have ne: "join_slash (st @ [name]) \<noteq> []"
    using st nm by (intro join_slash_not_Nil) (auto simp: plain_def)
  have j: "j \<noteq> []" "hd j = slash" "last j \<noteq> slash"
    unfolding j_def d_def using nm by (auto dest: last_in_set)
  have "path_join [d, name] = path_normalize j"
    using nm by (simp add: path_join_def j_def d_def)
  also have "\<dots> = slash # join_slash (st @ [name])"
    by (rule path_normalize_absolute [OF j fo ne])
  finally show ?thesis by (simp add: join_slash_snoc [OF st(2)] d_def)
qed

text \<open>The final component of a path that begins with \<open>/output/\<close>.\<close>

lemma basename_under_output:
  assumes "startsWith p (js ''/output/'')"
  shows "basename p \<noteq> [] \<and> slash \<notin> set (basename p)"
proof -
  obtain rest where p: "p = js ''/output/'' @ rest"
    using assms by (metis append_take_drop_id startsWith_def)
  have o: "js ''/output/'' = [] @ slash # js ''output'' @ slash # []" "slash \<notin> set (js ''output'')"
    by (simp_all add: js_def slash_def)
  have "split_slash p = [] # js ''output'' # split_slash rest"
    unfolding p o(1) using o(2) by (simp add: split_slash_prepend Let_def)
  then have segs: "filter (\<lambda>s. s \<noteq> []) (split_slash p) =
      js ''output'' # filter (\<lambda>s. s \<noteq> []) (split_slash rest)"
    by (simp add: js_def)
  then have "basename p = last (js ''output'' # filter (\<lambda>s. s \<noteq> []) (split_slash rest))"
    by (simp add: basename_def Let_def)
  moreover have "last (js ''output'' # filter (\<lambda>s. s \<noteq> []) (split_slash rest))
      \<in> set (filter (\<lambda>s. s \<noteq> []) (split_slash p))"
    unfolding segs by (rule last_in_set) simp
  ultimately have "basename p \<in> set (filter (\<lambda>s. s \<noteq> []) (split_slash p))"
    by simp
  then show ?thesis
    by (auto dest: split_slash_no_slash)
qed

section \<open>The characters of a joined path\<close>

lemma split_slash_chars: "s \<in> set (split_slash p) \<Longrightarrow> set s \<subseteq> set p"
proof (induction p arbitrary: s)
  case Nil
  then show ?case by simp
next
  case (Cons c cs)
  obtain x xs where r: "split_slash cs = x # xs"
    using split_slash_not_Nil [of cs] by (cases "split_slash cs") auto
  have "set x \<subseteq> set cs" and "\<And>t. t \<in> set xs \<Longrightarrow> set t \<subseteq> set cs"
    using Cons.IH r by auto
  then show ?case
    using Cons.prems r by (auto simp: Let_def split: if_splits)
qed

lemma join_slash_chars: "set (join_slash xs) \<subseteq> (\<Union>x \<in> set xs. set x) \<union> {slash}"
  by (induction xs rule: join_slash.induct) auto

lemma normalize_step_chars:
  "s \<in> set (normalize_step a res seg) \<Longrightarrow> s \<in> set res \<or> s = seg"
  by (auto simp: normalize_step_def dest: in_set_butlastD split: if_splits)

lemma foldl_normalize_chars:
  "s \<in> set (foldl (normalize_step a) acc xs) \<Longrightarrow> s \<in> set acc \<or> s \<in> set xs"
proof (induction xs arbitrary: acc)
  case Nil
  then show ?case by simp
next
  case (Cons x xs)
  then show ?case by (auto dest: normalize_step_chars)
qed

lemma path_normalize_chars: "set (path_normalize p) \<subseteq> set p \<union> {slash, dot}"
proof -
  have "set (normalizeString p a) \<subseteq> set p \<union> {slash}" for a
  proof
    fix c
    assume "c \<in> set (normalizeString p a)"
    then have "c \<in> (\<Union>x \<in> set (foldl (normalize_step a) [] (split_slash p)). set x) \<union> {slash}"
      using join_slash_chars unfolding normalizeString_def by blast
    then show "c \<in> set p \<union> {slash}"
      using foldl_normalize_chars split_slash_chars by fastforce
  qed
  then show ?thesis
    by (auto simp: path_normalize_def Let_def)
qed

lemma path_join_chars: "set (path_join xs) \<subseteq> (\<Union>x \<in> set xs. set x) \<union> {slash, dot}"
proof -
  have "set (join_slash (filter (\<lambda>a. a \<noteq> []) xs)) \<subseteq> (\<Union>x \<in> set xs. set x) \<union> {slash}"
    using join_slash_chars [of "filter (\<lambda>a. a \<noteq> []) xs"] by auto
  then show ?thesis
    using path_normalize_chars [of "join_slash (filter (\<lambda>a. a \<noteq> []) xs)"]
    by (auto simp: path_join_def Let_def)
qed

lemma path_join_no_NUL: "\<forall>x \<in> set xs. 0 \<notin> set x \<Longrightarrow> 0 \<notin> set (path_join xs)"
  using path_join_chars [of xs] by (auto simp: slash_def dot_def)

lemma dirname_no_NUL: "0 \<notin> set (dirname e)"
  by (simp add: dirname_def slash_def)

lemma script_path_no_NUL: "0 \<notin> set (path_join [SCRIPTS_DIR e, js ''search.py''])"
proof -
  have "0 \<notin> set (SCRIPTS_DIR e)"
    unfolding SCRIPTS_DIR_def by (rule path_join_no_NUL) (simp add: dirname_no_NUL js_def)
  then show ?thesis
    by (intro path_join_no_NUL) (simp add: js_def)
qed

lemma output_path_no_NUL:
  "0 \<notin> set (path_join [OUTPUT_DIR e, js ''presentation_'' @ generateId e @ js ''.html''])"
proof -
  have "0 \<notin> set (OUTPUT_DIR e)"
    unfolding OUTPUT_DIR_def by (rule path_join_no_NUL) (simp add: dirname_no_NUL js_def)
  then show ?thesis
    using generateId_no_NUL [of e] by (intro path_join_no_NUL) (simp add: js_def)
qed

section \<open>Facts about the URL constructor\<close>

lemma surrogate_simps [simp]:
  "\<not> high_surrogate 0x3F" "\<not> low_surrogate 0x3F" "\<not> high_surrogate 0x2F" "\<not> low_surrogate 0x2F"
  by (simp_all add: high_surrogate_def low_surrogate_def)

lemma usv_Cons: "\<not> low_surrogate c \<Longrightarrow> \<not> high_surrogate c \<Longrightarrow> usv (c # q) = c # usv q"
  by (cases q) simp_all

lemma usv_append:
  "\<not> low_surrogate c \<Longrightarrow> \<not> high_surrogate c \<Longrightarrow> usv (p @ c # q) = usv p @ c # usv q"
  by (induction p rule: usv.induct) (simp_all add: usv_Cons)

lemma usv_rel:
  "list_all2 (\<lambda>a b. b = a \<or> ((high_surrogate a \<or> low_surrogate a) \<and> b = 0xFFFD)) p (usv p)"
  by (induction p rule: usv.induct) auto

lemma usv_facts:
  assumes "p \<noteq> []" and "hd p = slash" and "0x3F \<notin> set p" and "0x23 \<notin> set p"
    and "\<not> c0_or_space (last p)"
  shows "usv p \<noteq> []" and "hd (usv p) = slash" and "0x3F \<notin> set (usv p)" and "0x23 \<notin> set (usv p)"
    and "\<not> c0_or_space (last (usv p))"
proof -
  have len: "length (usv p) = length p"
    and nth: "\<And>i. i < length p \<Longrightarrow>
      usv p ! i = p ! i \<or> ((high_surrogate (p ! i) \<or> low_surrogate (p ! i)) \<and> usv p ! i = 0xFFFD)"
    using usv_rel [of p] by (auto simp: list_all2_conv_all_nth)
  show ne: "usv p \<noteq> []" using assms(1) len by auto
  have "usv p ! 0 = p ! 0 \<or> ((high_surrogate (p ! 0) \<or> low_surrogate (p ! 0)) \<and> usv p ! 0 = 0xFFFD)"
    using nth [of 0] assms(1) by simp
  moreover have "p ! 0 = slash" using assms(1,2) by (simp add: hd_conv_nth)
  ultimately show "hd (usv p) = slash"
    using ne by (auto simp: hd_conv_nth slash_def)
  have mem: "x \<in> set p \<or> x = 0xFFFD" if xin: "x \<in> set (usv p)" for x
  proof -
    obtain i where i: "i < length (usv p)" "usv p ! i = x"
      using xin unfolding in_set_conv_nth by blast
    then have "p ! i \<in> set p" using len by simp
    then show ?thesis using nth [of i] i len by auto
  qed
  show "0x3F \<notin> set (usv p)" using mem assms(3) by fastforce
  show "0x23 \<notin> set (usv p)" using mem assms(4) by fastforce
  have "last (usv p) \<in> set (usv p)" using ne by simp
  moreover have "last (usv p) = usv p ! (length p - 1)"
    using ne len by (simp add: last_conv_nth)
  moreover have "last p = p ! (length p - 1)"
    using assms(1) by (simp add: last_conv_nth)
  ultimately show "\<not> c0_or_space (last (usv p))"
    using nth [of "length p - 1"] assms(1,5) by (auto simp: c0_or_space_def)
qed

lemma url_input_path:
  assumes "P \<noteq> []" and "\<not> c0_or_space (hd P)" and "\<not> c0_or_space (last P)"
  shows "url_input P = filter (\<lambda>c. \<not> tab_or_newline c) P"
proof -
  have a: "dropWhile c0_or_space P = P"
    using assms(1,2) by (cases P) auto
  obtain x xs where r: "rev P = x # xs"
    using assms(1) by (cases "rev P") auto
  have "hd (rev P) = last P" using assms(1) by (simp add: hd_rev)
  then have "x = last P" using r by simp
  then have "dropWhile c0_or_space (x # xs) = x # xs"
    using assms(3) by simp
  then have b: "dropWhile c0_or_space (rev P) = rev P"
    by (simp only: r)
  show ?thesis by (simp add: url_input_def a b)
qed

lemma url_input_query:
  assumes "P \<noteq> []" and "\<not> c0_or_space (hd P)"
  shows "\<exists>Q'. url_input (P @ 0x3F # Q) = filter (\<lambda>c. \<not> tab_or_newline c) P @ 0x3F # Q'"
proof -
  have a: "dropWhile c0_or_space (P @ 0x3F # Q) = P @ 0x3F # Q"
    using assms by (cases P) auto
  have q: "\<not> c0_or_space 0x3F" by (simp add: c0_or_space_def)
  have b: "dropWhile c0_or_space (rev Q @ 0x3F # rev P) = dropWhile c0_or_space (rev Q) @ 0x3F # rev P"
    using q by (simp add: dropWhile_append)
  have t: "\<not> tab_or_newline 0x3F" by (simp add: tab_or_newline_def)
  show ?thesis
    by (rule exI [of _ "filter (\<lambda>c. \<not> tab_or_newline c) (rev (dropWhile c0_or_space (rev Q)))"])
       (simp add: url_input_def a b t)
qed

lemma url_prefix_path:
  assumes "p \<noteq> []" and "hd p = slash" and "0x3F \<notin> set p" and "0x23 \<notin> set p"
    and "\<not> c0_or_space (last p)"
  shows "url_prefix p = filter (\<lambda>c. \<not> tab_or_newline c) (usv p)"
    and "url_prefix (p @ 0x3F # q) = filter (\<lambda>c. \<not> tab_or_newline c) (usv p)"
proof -
  note u = usv_facts [OF assms]
  have h: "\<not> c0_or_space (hd (usv p))"
    using u(2) by (simp add: c0_or_space_def slash_def)
  have all: "\<forall>x \<in> set (filter (\<lambda>c. \<not> tab_or_newline c) (usv p)). x \<noteq> 0x3F \<and> x \<noteq> 0x23"
    using u(3,4) by auto
  show "url_prefix p = filter (\<lambda>c. \<not> tab_or_newline c) (usv p)"
    using all by (simp add: url_prefix_def url_input_path [OF u(1) h u(5)] takeWhile_eq_all_conv)
  obtain Q' where Q': "url_input (usv p @ 0x3F # usv q) =
      filter (\<lambda>c. \<not> tab_or_newline c) (usv p) @ 0x3F # Q'"
    using url_input_query [OF u(1) h] by blast
  show "url_prefix (p @ 0x3F # q) = filter (\<lambda>c. \<not> tab_or_newline c) (usv p)"
    using all by (simp add: url_prefix_def usv_append Q' takeWhile_append)
qed

lemma new_URL_query:
  assumes "p \<noteq> []" and "hd p = slash" and "0x3F \<notin> set p" and "0x23 \<notin> set p"
    and "\<not> c0_or_space (last p)"
  shows "new_URL e (p @ 0x3F # q) = new_URL e p"
proof -
  note u = usv_facts [OF assms]
  have t: "\<not> tab_or_newline slash" by (simp add: tab_or_newline_def slash_def)
  obtain cs where cs: "usv p = slash # cs"
    using u(1,2) by (cases "usv p") auto
  have "\<not> has_scheme (filter (\<lambda>c. \<not> tab_or_newline c) (usv p))"
    using t by (simp add: cs has_scheme_def ascii_alpha_def slash_def)
  then show ?thesis
    by (simp add: new_URL_def url_prefix_path [OF assms])
qed

lemma unreserved_facts:
  assumes "unreserved c"
  shows "\<not> high_surrogate c" and "\<not> low_surrogate c" and "\<not> c0_or_space c"
    and "\<not> tab_or_newline c" and "c \<noteq> 0x3F" and "c \<noteq> 0x23" and "\<not> separator c"
    and "c \<noteq> 0x25" and "c \<noteq> slash" and "\<not> in_path_set caret (unat c)" and "scalar c = unat c"
  using assms
  by (auto simp: unreserved_def ascii_alpha_def ascii_digit_def high_surrogate_def
      low_surrogate_def c0_or_space_def tab_or_newline_def separator_def slash_def
      in_path_set_def scalar_def word_le_nat_alt)

lemma clean_facts:
  assumes "unreserved c \<or> c = slash"
  shows "\<not> high_surrogate c" and "\<not> low_surrogate c" and "\<not> c0_or_space c"
    and "\<not> tab_or_newline c" and "c \<noteq> 0x3F" and "c \<noteq> 0x23"
  using assms unreserved_facts [of c]
  by (auto simp: high_surrogate_def low_surrogate_def c0_or_space_def tab_or_newline_def slash_def)

lemma usv_id: "\<forall>c \<in> set s. \<not> high_surrogate c \<and> \<not> low_surrogate c \<Longrightarrow> usv s = s"
  by (induction s rule: usv.induct) auto

lemma code_points_plain:
  "\<forall>c \<in> set s. \<not> high_surrogate c \<and> \<not> low_surrogate c \<Longrightarrow> code_points s = map unat s"
  by (induction s rule: code_points.induct) (auto simp: scalar_def)

lemma encode_segment_unreserved:
  assumes "\<forall>c \<in> set s. unreserved c"
  shows "encode_segment caret s = s"
proof -
  have cp: "code_points s = map unat s"
    using assms unreserved_facts(1,2) by (intro code_points_plain) blast
  have "concat (map (\<lambda>n. if in_path_set caret n then concat (map percent_byte (utf8 n))
                           else [of_nat n]) (map unat t)) = t"
    if "\<forall>c \<in> set t. unreserved c" for t :: jsstring
    using that by (induction t) (simp_all add: unreserved_facts(10))
  then show ?thesis
    using assms by (simp add: encode_segment_def cp)
qed

lemma split_segments_not_Nil [simp]: "split_segments p \<noteq> []"
  by (induction p) (auto simp: Let_def)

lemma split_segments_single: "\<forall>c \<in> set b. \<not> separator c \<Longrightarrow> split_segments b = [b]"
  by (induction b) (auto simp: Let_def)

lemma split_segments_prepend:
  "\<forall>c \<in> set s. \<not> separator c \<Longrightarrow> split_segments (s @ 0x2F # rest) = s # split_segments rest"
  by (induction s) (auto simp: Let_def separator_def)

lemma dots_unreserved:
  assumes "\<forall>c \<in> set s. unreserved c"
  shows "single_dot s \<longleftrightarrow> s = [0x2E]" and "double_dot s \<longleftrightarrow> s = [0x2E, 0x2E]"
proof -
  have "0x25 \<notin> set s"
    using assms unreserved_facts(8) by blast
  then show "single_dot s \<longleftrightarrow> s = [0x2E]" and "double_dot s \<longleftrightarrow> s = [0x2E, 0x2E]"
    by (auto simp: single_dot_def double_dot_def encoded_dot_def)
qed

text \<open>A clean target under \<open>/output/\<close> is its own pathname.\<close>

lemma new_URL_output:
  assumes "name \<noteq> []" and "\<forall>c \<in> set name. unreserved c"
    and "name \<noteq> [dot]" and "name \<noteq> [dot, dot]"
  shows "new_URL e (js ''/output/'' @ name) = Some \<lparr>pathname = js ''/output/'' @ name\<rparr>"
proof -
  define t where "t = js ''/output/'' @ name"
  define cs where "cs = js ''output'' @ 0x2F # name"
  have t: "t = slash # cs"
    by (simp add: t_def cs_def js_def slash_def)
  have o: "\<forall>c \<in> set (js ''output''). unreserved c"
    by (simp add: js_def unreserved_def ascii_alpha_def)
  have clean: "\<forall>c \<in> set t. unreserved c \<or> c = slash"
    using assms(2) o by (auto simp: t cs_def slash_def)
  have u: "usv t = t"
    using clean clean_facts(1,2) by (intro usv_id) blast
  have "last t = last name"
    using assms(1) by (simp add: t_def)
  then have l: "\<not> c0_or_space (last t)"
    using assms(1,2) unreserved_facts(3) last_in_set by metis
  have h: "\<not> c0_or_space (hd t)"
    by (simp add: t c0_or_space_def slash_def)
  have "filter (\<lambda>c. \<not> tab_or_newline c) t = t"
    using clean clean_facts(4) by (simp add: filter_id_conv)
  then have i: "url_input t = t"
    using url_input_path [OF _ h l] by (simp add: t)
  have "\<forall>x \<in> set t. x \<noteq> 0x3F \<and> x \<noteq> 0x23"
    using clean clean_facts(5,6) by blast
  then have p: "url_prefix t = t"
    by (simp add: url_prefix_def u i takeWhile_eq_all_conv)
  have s: "\<not> has_scheme t"
    by (simp add: t has_scheme_def ascii_alpha_def slash_def)
  obtain d ds where d: "cs = d # ds" "\<not> separator d"
    by (auto simp: cs_def js_def separator_def)
  have sep: "separator slash"
    by (simp add: separator_def slash_def)
  have r: "relative_URL e t = Some (path_of (escapes_caret e) cs)"
    using d sep by (simp add: relative_URL_def t)
  have n: "\<forall>c \<in> set name. \<not> separator c"
    using assms(2) unreserved_facts(7) by blast
  have on: "\<forall>c \<in> set (js ''output''). \<not> separator c"
    using o unreserved_facts(7) by blast
  have sp: "split_segments cs = [js ''output'', name]"
    unfolding cs_def by (simp add: split_segments_prepend [OF on] split_segments_single [OF n])
  have nd: "\<not> single_dot name" "\<not> double_dot name"
    using assms(3,4) by (simp_all add: dots_unreserved [OF assms(2)] dot_def)
  have od: "\<not> single_dot (js ''output'')" "\<not> double_dot (js ''output'')"
    by (simp_all add: dots_unreserved [OF o]) (simp_all add: js_def)
  have "path_of (escapes_caret e) cs = \<lparr>pathname = 0x2F # js ''output'' @ 0x2F # name\<rparr>"
    by (simp add: path_of_def sp encode_segment_unreserved [OF o]
        encode_segment_unreserved [OF assms(2)] nd od)
  then show ?thesis
    unfolding t_def [symmetric] by (simp add: new_URL_def p s r) (simp add: t cs_def slash_def)
qed

lemma basename_output:
  assumes "name \<noteq> []" and "slash \<notin> set name"
  shows "basename (js ''/output/'' @ name) = name"
proof -
  have o: "js ''/output/'' @ name = [] @ slash # js ''output'' @ slash # name"
    "slash \<notin> set (js ''output'')"
    by (simp_all add: js_def slash_def)
  have "split_slash (js ''/output/'' @ name) = [[], js ''output'', name]"
    unfolding o(1) using o(2) assms(2)
    by (simp add: split_slash_prepend split_slash_single Let_def)
  then show ?thesis
    using assms(1) by (simp add: basename_def js_def)
qed

section \<open>Spawning the generator\<close>

lemma respond_status [simp]: "(respond st hs b = respond st' hs' b') \<longleftrightarrow> (st = st' \<and> hs = hs' \<and> b = b')"
  by (auto simp: respond_def)

lemma on_close_success: "\<exists>b. property (on_close p) (js ''success'') = JBool b"
  by (auto simp: on_close_def Let_def)

lemma spawn_args_Inl_iff:
  "(\<exists>err. spawn_args e options = Inl err) \<longleftrightarrow>
     options = JNull \<or> options = JUndefined \<or>
     (truthy (property options (js ''duration'')) \<and>
      (\<exists>err. String_js (Number_toString e) (property options (js ''duration'')) = Inl err))"
  by (auto simp: spawn_args_def get_field_def split: sum.splits)

lemma spawn_Inl_iff:
  "(\<exists>err. spawn e call = Inl err) \<longleftrightarrow>
     (\<exists>a \<in> set (args call). has_null_byte a) \<or> spawn_rejects e call"
  by (auto simp: spawn_def)

lemma spawn_clean:
  "\<forall>a \<in> set (args call). \<not> has_null_byte a \<Longrightarrow> \<not> spawn_rejects e call \<Longrightarrow>
   spawn e call = Inr (child_process e call)"
  by (auto simp: spawn_def)

lemma generatePresentation_Inr:
  "spawn_args e options = Inr argv \<Longrightarrow>
   spawn e \<lparr>command = js ''python3'', args = argv, cwd = SCRIPTS_DIR e\<rparr> = Inr p \<Longrightarrow>
   generatePresentation e options =
     (Resolved (on_close p), [\<lparr>command = js ''python3'', args = argv, cwd = SCRIPTS_DIR e\<rparr>])"
  by (simp add: generatePresentation_def Let_def)

lemma generatePresentation_Inl:
  "spawn_args e options = Inl err \<Longrightarrow> generatePresentation e options = (Rejected err, [])"
  by (simp add: generatePresentation_def)

lemma generatePresentation_spawn_Inl:
  "spawn_args e options = Inr argv \<Longrightarrow>
   spawn e \<lparr>command = js ''python3'', args = argv, cwd = SCRIPTS_DIR e\<rparr> = Inl err \<Longrightarrow>
   generatePresentation e options = (Rejected err, [])"
  by (simp add: generatePresentation_def Let_def)

lemma js_no_NUL:
  "0 \<notin> set (js ''--presentation'')" "0 \<notin> set (js ''--type'')"
  "0 \<notin> set (js ''business_presentation'')" "0 \<notin> set (js ''--audience'')"
  "0 \<notin> set (js ''general_employees'')" "0 \<notin> set (js ''--duration'')"
  "0 \<notin> set (js ''15'')" "0 \<notin> set (js ''--tone'')" "0 \<notin> set (js ''professional'')"
  "0 \<notin> set (js ''--industry'')" "0 \<notin> set (js ''--output'')"
  "0 \<notin> set (js ''--presentation-format'')" "0 \<notin> set (js ''reveal_js'')"
  by (simp_all add: js_def)

text \<open>The argument vector for a body that holds a topic and nothing else.\<close>

lemma spawn_args_topic_only:
  assumes "t \<noteq> []"
  shows "spawn_args e (JObj [(js ''topic'', JStr t)]) =
     Inr [JStr (path_join [SCRIPTS_DIR e, js ''search.py'']),
          JStr t,
          JStr (js ''--presentation''),
          JStr (js ''--type''), JStr (js ''business_presentation''),
          JStr (js ''--audience''), JStr (js ''general_employees''),
          JStr (js ''--duration''), JStr (js ''15''),
          JStr (js ''--tone''), JStr (js ''professional''),
          JStr (js ''--industry''), JStr [],
          JStr (js ''--output''),
          JStr (path_join [OUTPUT_DIR e, js ''presentation_'' @ generateId e @ js ''.html'']),
          JStr (js ''--presentation-format''), JStr (js ''reveal_js'')]"
  by (simp add: spawn_args_def get_field_def js_or_def js_def)

lemma topic_only_clean:
  assumes "0 \<notin> set t"
  shows "\<forall>a \<in> set
       [JStr (path_join [SCRIPTS_DIR e, js ''search.py'']),
        JStr t,
        JStr (js ''--presentation''),
        JStr (js ''--type''), JStr (js ''business_presentation''),
        JStr (js ''--audience''), JStr (js ''general_employees''),
        JStr (js ''--duration''), JStr (js ''15''),
        JStr (js ''--tone''), JStr (js ''professional''),
        JStr (js ''--industry''), JStr [],
        JStr (js ''--output''),
        JStr (path_join [OUTPUT_DIR e, js ''presentation_'' @ generateId e @ js ''.html'']),
        JStr (js ''--presentation-format''), JStr (js ''reveal_js'')]. \<not> has_null_byte a"
  using assms script_path_no_NUL [of e] output_path_no_NUL [of e]
  by (simp add: has_null_byte_def js_no_NUL)

lemma spawn_topic_only:
  assumes "0 \<notin> set t" and "\<forall>call. \<not> spawn_rejects e call"
  shows "spawn e \<lparr>command = c,
       args = [JStr (path_join [SCRIPTS_DIR e, js ''search.py'']),
               JStr t,
               JStr (js ''--presentation''),
               JStr (js ''--type''), JStr (js ''business_presentation''),
               JStr (js ''--audience''), JStr (js ''general_employees''),
               JStr (js ''--duration''), JStr (js ''15''),
               JStr (js ''--tone''), JStr (js ''professional''),
               JStr (js ''--industry''), JStr [],
               JStr (js ''--output''),
               JStr (path_join [OUTPUT_DIR e, js ''presentation_'' @ generateId e @ js ''.html'']),
               JStr (js ''--presentation-format''), JStr (js ''reveal_js'')],
       cwd = d\<rparr> =
     Inr (child_process e \<lparr>command = c,
       args = [JStr (path_join [SCRIPTS_DIR e, js ''search.py'']),
               JStr t,
               JStr (js ''--presentation''),
               JStr (js ''--type''), JStr (js ''business_presentation''),
               JStr (js ''--audience''), JStr (js ''general_employees''),
               JStr (js ''--duration''), JStr (js ''15''),
               JStr (js ''--tone''), JStr (js ''professional''),
               JStr (js ''--industry''), JStr [],
               JStr (js ''--output''),
               JStr (path_join [OUTPUT_DIR e, js ''presentation_'' @ generateId e @ js ''.html'']),
               JStr (js ''--presentation-format''), JStr (js ''reveal_js'')],
       cwd = d\<rparr>)"
  using topic_only_clean [OF assms(1), of e] assms(2)
  by (intro spawn_clean) simp_all

lemma generatePresentation_topic_only:
  assumes "t \<noteq> []" and "0 \<notin> set t" and "\<forall>call. \<not> spawn_rejects e call"
  shows "\<exists>call. generatePresentation e (JObj [(js ''topic'', JStr t)]) =
            (Resolved (on_close (child_process e call)), [call])"
  using generatePresentation_Inr
    [OF spawn_args_topic_only [OF assms(1)] spawn_topic_only [OF assms(2,3)]]
  by blast

lemma sample_accepts:
  "\<forall>call. \<not> spawn_rejects sample_env call"
  "\<forall>call. \<not> spawn_rejects (sample_env\<lparr>JSON_parse := f\<rparr>) call"
  "\<forall>call. \<not> spawn_rejects (sample_env\<lparr>child_process := g\<rparr>) call"
  by (simp_all add: sample_env_def)

lemma sample_topic: "js ''Q4 Sales Review'' \<noteq> []" "0 \<notin> set (js ''Q4 Sales Review'')"
  by (simp_all add: js_def)

lemmas path_eval =
  path_join_def path_normalize_def normalizeString_def normalize_step_def basename_def extname_def
  Let_def slash_def dot_def js_def

lemmas url_eval =
  new_URL_def url_prefix_def url_input_def relative_URL_def path_of_def has_scheme_def
  c0_or_space_def tab_or_newline_def ascii_alpha_def ascii_digit_def separator_def
  encode_segment_def in_path_set_def encoded_dot_def single_dot_def double_dot_def
  high_surrogate_def low_surrogate_def scalar_def utf8_def percent_byte_def hex_digit_def
  Let_def js_def

lemma sample_found:
  "rev (sort (filter is_generated (map fst (output_entries sample_exit)))) =
     [js ''presentation_b2.html'', js ''presentation_a1.html'']"
  by (simp add: sample_exit_def is_generated_def startsWith_def endsWith_def js_def)

lemma sample_on_close:
  "on_close sample_exit =
     JObj [(js ''success'', JBool True),
           (js ''url'', JStr (js ''/output/presentation_b2.html'')),
           (js ''filename'', JStr (js ''presentation_b2.html''))]"
  by (simp add: on_close_def readdirSync_output_def sample_found Let_def js_append)
     (simp add: sample_exit_def)

lemma stale_found:
  "rev (sort (filter is_generated (map fst (output_entries stale_exit)))) =
     [js ''presentation_z.html'', js ''presentation_a1.html'']"
  by (simp add: stale_exit_def is_generated_def startsWith_def endsWith_def js_def)

lemma sample_dirs:
  "SCRIPTS_DIR sample_env = js ''/srv/app/.claude/skills/ui-ux-pro-max/scripts''"
  "OUTPUT_DIR sample_env = js ''/srv/app/output''"
  "FRONTEND_DIR sample_env = js ''/srv/app/frontend/public''"
  by (simp_all add: SCRIPTS_DIR_def OUTPUT_DIR_def FRONTEND_DIR_def dirname_def sample_env_def path_eval)

lemma sample_id: "generateId sample_env = js ''ya4fzyo82mv''"
  by (simp add: generateId_def Math_random_36_def sample_env_def toString36.simps digit36_def js_def)

lemma sample_paths:
  "path_join [SCRIPTS_DIR sample_env, js ''search.py''] =
     js ''/srv/app/.claude/skills/ui-ux-pro-max/scripts/search.py''"
  "path_join [OUTPUT_DIR sample_env, js ''presentation_'' @ generateId sample_env @ js ''.html''] =
     js ''/srv/app/output/presentation_ya4fzyo82mv.html''"
  by (simp_all add: sample_dirs sample_id) (simp_all add: path_eval)


lemma url_generate: "new_URL e (js ''/api/generate'') = Some \<lparr>pathname = js ''/api/generate''\<rparr>"
  by (simp add: url_eval)

lemma url_catalogs:
  "new_URL e (js ''/api/health'') = Some \<lparr>pathname = js ''/api/health''\<rparr>"
  "new_URL e (js ''/api/templates'') = Some \<lparr>pathname = js ''/api/templates''\<rparr>"
  "new_URL e (js ''/api/presentation-types'') = Some \<lparr>pathname = js ''/api/presentation-types''\<rparr>"
  "new_URL e (js ''/api/audiences'') = Some \<lparr>pathname = js ''/api/audiences''\<rparr>"
  by (simp_all add: url_eval)

lemma generate_dispatch:
  assumes "new_URL e (req_url req) = Some u" and "pathname u = js ''/api/generate''"
    and "req_method req = js ''POST''"
  shows "handleRequest e req = generate_route e (req_body req)"
  using assms by (simp add: handleRequest_def js_def)

lemma sample_generate_dispatch:
  "handleRequest (sample_env\<lparr>JSON_parse := f\<rparr>) generate_request =
     generate_route (sample_env\<lparr>JSON_parse := f\<rparr>) []"
  by (rule trans [OF generate_dispatch [where u = "\<lparr>pathname = js ''/api/generate''\<rparr>"]])
     (simp_all add: generate_request_def url_generate)

section \<open>The Generation Process Invoker\<close>

text \<open>
  C1, as amended. Whenever the invoker has spawned the process, the promise is resolved
  from the exit outcome \<open>p\<close>. With exit code 0 the names of the output directory that
  start with \<open>presentation_\<close> and end with \<open>.html\<close> are sorted descending by code units,
  so the greatest matching name is first, whatever the creation times, and it is
  returned as \<open>url = '/output/' + name\<close> and \<open>filename = name\<close>; with no matching name the
  result is the failure saying that no output file was found. With any other exit code
  the result is a failure whose message is the collected stderr text, or the fixed
  generic message when that text is empty.
\<close>

theorem generatePresentation_outcome:
  assumes "spawn_args e options = Inr argv"
    and "spawn e \<lparr>command = js ''python3'', args = argv, cwd = SCRIPTS_DIR e\<rparr> = Inr p"
  shows "let found = rev (sort (filter is_generated (map fst (output_entries p))))
         in fst (generatePresentation e options) =
              Resolved
                (if exit_code p = Some 0 then
                   (if found \<noteq> [] then
                      JObj [(js ''success'', JBool True),
                            (js ''url'', JStr (js ''/output/'' @ hd found)),
                            (js ''filename'', JStr (hd found))]
                    else JObj [(js ''success'', JBool False), (js ''error'', JStr msg_no_output)])
                 else
                   JObj [(js ''success'', JBool False),
                         (js ''error'', JStr (if stderr_text p = [] then msg_failed else stderr_text p))])
            \<and> sorted (rev found)
            \<and> (found \<noteq> [] \<longrightarrow>
                  hd found \<in> fst ` set (output_entries p) \<and>
                  startsWith (hd found) (js ''presentation_'') \<and> endsWith (hd found) (js ''.html'') \<and>
                  (\<forall>f \<in> fst ` set (output_entries p). is_generated f \<longrightarrow> f \<le> hd found))"
proof -
  define ms where "ms = filter is_generated (map fst (output_entries p))"
  have res: "fst (generatePresentation e options) = Resolved (on_close p)"
    by (simp add: generatePresentation_Inr [OF assms])
  have greatest: "ms \<noteq> [] \<Longrightarrow> hd (rev (sort ms)) \<in> set ms \<and> (\<forall>x \<in> set ms. x \<le> hd (rev (sort ms)))"
    by (rule hd_rev_sort_greatest)
  have ne: "rev (sort ms) \<noteq> [] \<longleftrightarrow> ms \<noteq> []"
    by (metis length_sort length_0_conv rev_is_Nil_conv)
  have "sorted (rev (rev (sort ms)))" by simp
  moreover have "rev (sort ms) \<noteq> [] \<longrightarrow>
      hd (rev (sort ms)) \<in> fst ` set (output_entries p) \<and> is_generated (hd (rev (sort ms))) \<and>
      (\<forall>f \<in> fst ` set (output_entries p). is_generated f \<longrightarrow> f \<le> hd (rev (sort ms)))"
    using greatest ne by (auto simp: ms_def)
  ultimately show ?thesis
    unfolding Let_def ms_def [symmetric]
    using res ne
    by (auto simp: on_close_def readdirSync_output_def ms_def Let_def is_generated_def)
qed

theorem generatePresentation_outcome_witness:
  "fst (generatePresentation sample_env sample_options) =
     Resolved (JObj [(js ''success'', JBool True),
                     (js ''url'', JStr (js ''/output/presentation_b2.html'')),
                     (js ''filename'', JStr (js ''presentation_b2.html''))])"
proof -
  have c: "exit_code sample_exit = Some 0"
    "child_process sample_env = (\<lambda>c. sample_exit)"
    by (simp_all add: sample_exit_def sample_env_def)
  show ?thesis
    using generatePresentation_outcome
      [OF spawn_args_topic_only [OF sample_topic(1)]
        spawn_topic_only [OF sample_topic(2) sample_accepts(1)]]
    by (simp add: Let_def c sample_found js_append sample_options_def)
qed

text \<open>
  The claim as stated fails: with an old \<open>presentation_z.html\<close> (created at time 1) in
  the directory, it is returned although \<open>presentation_a1.html\<close> was created later
  (at time 2).
\<close>

theorem old_file_wins:
  "output_entries stale_exit = [(js ''presentation_z.html'', 1), (js ''presentation_a1.html'', 2)]
   \<and> fst (generatePresentation (sample_env\<lparr>child_process := \<lambda>c. stale_exit\<rparr>) sample_options) =
       Resolved (JObj [(js ''success'', JBool True),
                       (js ''url'', JStr (js ''/output/presentation_z.html'')),
                       (js ''filename'', JStr (js ''presentation_z.html''))])"
proof -
  obtain call where
    "generatePresentation (sample_env\<lparr>child_process := \<lambda>c. stale_exit\<rparr>) sample_options =
       (Resolved (on_close (child_process (sample_env\<lparr>child_process := \<lambda>c. stale_exit\<rparr>) call)), [call])"
    unfolding sample_options_def
    using generatePresentation_topic_only [OF sample_topic sample_accepts(3)] by blast
  then have "fst (generatePresentation (sample_env\<lparr>child_process := \<lambda>c. stale_exit\<rparr>) sample_options) =
      Resolved (on_close stale_exit)"
    by simp
  moreover have "on_close stale_exit =
      JObj [(js ''success'', JBool True),
            (js ''url'', JStr (js ''/output/presentation_z.html'')),
            (js ''filename'', JStr (js ''presentation_z.html''))]"
    by (simp add: on_close_def readdirSync_output_def stale_found Let_def js_append)
       (simp add: stale_exit_def)
  ultimately show ?thesis
    by (simp add: stale_exit_def)
qed

section \<open>The generation route\<close>




text \<open>
  C2, as amended. A POST to \<open>/api/generate\<close> whose body parses to a value other than
  \<open>null\<close> and whose \<open>topic\<close> is missing or falsy (the empty string included) is answered
  with status 400 and the JSON error \<open>{success: false, error: ...}\<close>, and no process is
  started. The topic is not trimmed: any truthy topic, a whitespace-only string
  included, is not answered with 400.
\<close>

theorem generate_rejects_falsy_topic:
  assumes "new_URL e (req_url req) = Some u" and "pathname u = js ''/api/generate''"
    and "req_method req = js ''POST''"
    and "JSON_parse e (req_body req) = Inr options"
    and "options \<noteq> JNull" and "options \<noteq> JUndefined"
  shows "(\<not> truthy (property options (js ''topic'')) \<longrightarrow>
            handleRequest e req =
              \<lparr>reply = respond 400 json_type
                 (JSON_stringify (JObj [(js ''success'', JBool False), (js ''error'', JStr msg_topic_required)])),
               spawned = []\<rparr>)
       \<and> (truthy (property options (js ''topic'')) \<longrightarrow>
            (\<forall>hs b. reply (handleRequest e req) \<noteq> respond 400 hs b))"
  using assms(4-6)
  by (auto simp: generate_dispatch [OF assms(1-3)] generate_route_def get_field_def failure_def
      split: sum.splits prod.splits promise.splits)

theorem generate_rejects_falsy_topic_witness:
  "handleRequest (sample_env\<lparr>JSON_parse := \<lambda>b. Inr (JObj [(js ''topic'', JStr [])])\<rparr>) generate_request =
     \<lparr>reply = respond 400 json_type
        (JSON_stringify (JObj [(js ''success'', JBool False), (js ''error'', JStr msg_topic_required)])),
      spawned = []\<rparr>"
proof -
  let ?e = "sample_env\<lparr>JSON_parse := \<lambda>b. Inr (JObj [(js ''topic'', JStr [])])\<rparr>"
  have u: "new_URL ?e (req_url generate_request) = Some \<lparr>pathname = js ''/api/generate''\<rparr>"
    by (simp add: generate_request_def url_generate)
  have m: "req_method generate_request = js ''POST''"
    by (simp add: generate_request_def)
  have p: "JSON_parse ?e (req_body generate_request) = Inr (JObj [(js ''topic'', JStr [])])"
    by simp
  show ?thesis
    using generate_rejects_falsy_topic [OF u _ m p] by simp
qed

text \<open>
  The claim as stated fails for a whitespace-only topic: the process is started and
  the answer is 200.
\<close>

theorem blank_topic_counterexample:
  "JSON_parse (sample_env\<lparr>JSON_parse := \<lambda>b. Inr blank_topic_options\<rparr>) (req_body generate_request)
     = Inr (JObj [(js ''topic'', JStr [0x20, 0x20, 0x20])])
   \<and> reply (handleRequest (sample_env\<lparr>JSON_parse := \<lambda>b. Inr blank_topic_options\<rparr>) generate_request) =
       respond 200 json_type
         (JSON_stringify (JObj [(js ''success'', JBool True),
                                (js ''url'', JStr (js ''/output/presentation_b2.html'')),
                                (js ''filename'', JStr (js ''presentation_b2.html''))]))
   \<and> length (spawned (handleRequest (sample_env\<lparr>JSON_parse := \<lambda>b. Inr blank_topic_options\<rparr>) generate_request)) = 1"
proof -
  let ?e = "sample_env\<lparr>JSON_parse := \<lambda>b. Inr blank_topic_options\<rparr>"
  have t: "get_field blank_topic_options (js ''topic'') = Inr (JStr [0x20, 0x20, 0x20])"
    by (simp add: blank_topic_options_def get_field_def js_def)
  have b: "js ''   '' \<noteq> []" "0 \<notin> set (js ''   '')"
    by (simp_all add: js_def)
  obtain call where g: "generatePresentation ?e blank_topic_options =
      (Resolved (on_close (child_process ?e call)), [call])"
    unfolding blank_topic_options_def
    using generatePresentation_topic_only [OF b sample_accepts(2)] by blast
  have c: "child_process ?e = (\<lambda>c. sample_exit)"
    by (simp add: sample_env_def)
  show ?thesis
    by (simp add: sample_generate_dispatch generate_route_def t g c sample_on_close)
       (simp add: blank_topic_options_def js_def)
qed





text \<open>
  Two more ways in which the executor of the promise throws before a process exists:
  a \<open>duration\<close> that \<open>String\<close> cannot print, and a call that the platform refuses to
  start.
\<close>

lemma odd_duration_example:
  "handleRequest (sample_env\<lparr>JSON_parse := \<lambda>b. Inr odd_duration_options\<rparr>) generate_request =
     \<lparr>reply = respond 500 json_type
        (JSON_stringify (JObj [(js ''success'', JBool False),
                               (js ''error'', JStr (js ''Cannot convert object to primitive value''))])),
      spawned = []\<rparr>"
proof -
  let ?e = "sample_env\<lparr>JSON_parse := \<lambda>b. Inr odd_duration_options\<rparr>"
  have t: "get_field odd_duration_options (js ''topic'') = Inr (JStr (js ''Q4 Sales Review''))"
    by (simp add: odd_duration_options_def get_field_def)
  have a: "spawn_args ?e odd_duration_options =
             Inl (TypeError (js ''Cannot convert object to primitive value''))"
    by (simp add: odd_duration_options_def spawn_args_def get_field_def js_def)
  show ?thesis
    by (simp add: sample_generate_dispatch generate_route_def t generatePresentation_Inl [OF a]
        failure_def)
       (simp add: js_def)
qed

lemma refused_spawn_example:
  "handleRequest (sample_env\<lparr>spawn_rejects := \<lambda>c. True, spawn_error := \<lambda>c. SystemError (js ''spawn E2BIG'')\<rparr>)
     generate_request =
     \<lparr>reply = respond 500 json_type
        (JSON_stringify (JObj [(js ''success'', JBool False), (js ''error'', JStr (js ''spawn E2BIG''))])),
      spawned = []\<rparr>"
proof -
  let ?e = "sample_env\<lparr>spawn_rejects := \<lambda>c. True, spawn_error := \<lambda>c. SystemError (js ''spawn E2BIG'')\<rparr>"
  have u: "new_URL ?e (req_url generate_request) = Some \<lparr>pathname = js ''/api/generate''\<rparr>"
    by (simp add: generate_request_def url_generate)
  have m: "req_method generate_request = js ''POST''"
    by (simp add: generate_request_def)
  have p: "JSON_parse sample_env (req_body generate_request) = Inr sample_options"
    by (simp add: sample_env_def)
  have t: "get_field sample_options (js ''topic'') = Inr (JStr (js ''Q4 Sales Review''))"
    by (simp add: sample_options_def get_field_def)
  obtain argv where a: "spawn_args ?e sample_options = Inr argv"
    unfolding sample_options_def using spawn_args_topic_only [OF sample_topic(1)] by blast
  have s: "spawn ?e \<lparr>command = js ''python3'', args = argv, cwd = SCRIPTS_DIR ?e\<rparr> =
      Inl (SystemError (js ''spawn E2BIG''))"
    by (simp add: spawn_def)
  show ?thesis
    by (simp add: generate_dispatch [OF u _ m] generate_route_def p t
        generatePresentation_spawn_Inl [OF a s] failure_def)
       (simp add: js_def)
qed

text \<open>
  C9, as amended. Once \<open>spawn\<close> has started the process the promise is resolved,
  whatever the exit outcome of the child (code zero, nonzero or \<open>null\<close>), with an object
  that has a boolean \<open>success\<close>. It is rejected when building the arguments throws or
  when \<open>spawn\<close> throws, and then no process is started. The 500 answer of
  \<open>/api/generate\<close> is given exactly when \<open>JSON.parse\<close> throws, when the parsed body is
  \<open>null\<close> (reading \<open>topic\<close> throws), or when the topic is truthy and either
  \<open>String(duration)\<close> throws or \<open>spawn\<close> throws (an argument that holds a NUL character,
  or a call that the platform refuses to start); the exit outcome of the process never
  leads to it.
\<close>

theorem generate_500_iff:
  assumes "new_URL e (req_url req) = Some u" and "pathname u = js ''/api/generate''"
    and "req_method req = js ''POST''"
  shows "(\<forall>options argv p.
            spawn_args e options = Inr argv \<longrightarrow>
            spawn e \<lparr>command = js ''python3'', args = argv, cwd = SCRIPTS_DIR e\<rparr> = Inr p \<longrightarrow>
            (\<exists>b. generatePresentation e options =
                    (Resolved (on_close p),
                     [\<lparr>command = js ''python3'', args = argv, cwd = SCRIPTS_DIR e\<rparr>])
                \<and> property (on_close p) (js ''success'') = JBool b))
       \<and> (\<forall>options err. spawn_args e options = Inl err \<longrightarrow>
            generatePresentation e options = (Rejected err, []))
       \<and> (\<forall>options argv err.
            spawn_args e options = Inr argv \<longrightarrow>
            spawn e \<lparr>command = js ''python3'', args = argv, cwd = SCRIPTS_DIR e\<rparr> = Inl err \<longrightarrow>
            generatePresentation e options = (Rejected err, []))
       \<and> ((\<exists>b. reply (handleRequest e req) = respond 500 json_type b) \<longleftrightarrow>
            (\<exists>err. JSON_parse e (req_body req) = Inl err) \<or>
            (\<exists>options. JSON_parse e (req_body req) = Inr options \<and>
               (options = JNull \<or> options = JUndefined \<or>
                (truthy (property options (js ''topic'')) \<and>
                 ((truthy (property options (js ''duration'')) \<and>
                   (\<exists>err. String_js (Number_toString e) (property options (js ''duration'')) = Inl err)) \<or>
                  (\<exists>argv. spawn_args e options = Inr argv \<and>
                     ((\<exists>a \<in> set argv. has_null_byte a) \<or>
                      spawn_rejects e \<lparr>command = js ''python3'', args = argv, cwd = SCRIPTS_DIR e\<rparr>)))))))"
proof (intro conjI allI impI)
  fix options argv p
  assume "spawn_args e options = Inr argv"
    and "spawn e \<lparr>command = js ''python3'', args = argv, cwd = SCRIPTS_DIR e\<rparr> = Inr p"
  then show "\<exists>b. generatePresentation e options =
               (Resolved (on_close p), [\<lparr>command = js ''python3'', args = argv, cwd = SCRIPTS_DIR e\<rparr>])
           \<and> property (on_close p) (js ''success'') = JBool b"
    using on_close_success by (simp add: generatePresentation_Inr)
next
  fix options err
  assume "spawn_args e options = Inl err"
  then show "generatePresentation e options = (Rejected err, [])"
    by (rule generatePresentation_Inl)
next
  fix options argv err
  assume "spawn_args e options = Inr argv"
    and "spawn e \<lparr>command = js ''python3'', args = argv, cwd = SCRIPTS_DIR e\<rparr> = Inl err"
  then show "generatePresentation e options = (Rejected err, [])"
    by (rule generatePresentation_spawn_Inl)
next
  show "(\<exists>b. reply (handleRequest e req) = respond 500 json_type b) \<longleftrightarrow>
          (\<exists>err. JSON_parse e (req_body req) = Inl err) \<or>
          (\<exists>options. JSON_parse e (req_body req) = Inr options \<and>
             (options = JNull \<or> options = JUndefined \<or>
              (truthy (property options (js ''topic'')) \<and>
               ((truthy (property options (js ''duration'')) \<and>
                 (\<exists>err. String_js (Number_toString e) (property options (js ''duration'')) = Inl err)) \<or>
                (\<exists>argv. spawn_args e options = Inr argv \<and>
                   ((\<exists>a \<in> set argv. has_null_byte a) \<or>
                    spawn_rejects e \<lparr>command = js ''python3'', args = argv, cwd = SCRIPTS_DIR e\<rparr>))))))"
  proof (cases "JSON_parse e (req_body req)")
    case (Inl err)
    then show ?thesis
      by (simp add: generate_dispatch [OF assms] generate_route_def)
  next
    case (Inr options)
    show ?thesis
    proof (cases "options = JNull \<or> options = JUndefined")
      case True
      then show ?thesis
        using Inr by (auto simp: generate_dispatch [OF assms] generate_route_def get_field_def)
    next
      case False
      then have topic: "get_field options (js ''topic'') = Inr (property options (js ''topic''))"
        by (simp add: get_field_def)
      show ?thesis
      proof (cases "spawn_args e options")
        case (Inl err)
        then have "truthy (property options (js ''duration'')) \<and>
            (\<exists>err. String_js (Number_toString e) (property options (js ''duration'')) = Inl err)"
          using False spawn_args_Inl_iff [of e options] by auto
        then show ?thesis
          using Inr False Inl
          by (auto simp: generate_dispatch [OF assms] generate_route_def topic
              generatePresentation_Inl [OF Inl])
      next
        case a: (Inr argv)
        have nd: "\<not> (truthy (property options (js ''duration'')) \<and>
            (\<exists>err. String_js (Number_toString e) (property options (js ''duration'')) = Inl err))"
          using a False spawn_args_Inl_iff [of e options] by auto
        let ?call = "\<lparr>command = js ''python3'', args = argv, cwd = SCRIPTS_DIR e\<rparr>"
        show ?thesis
        proof (cases "spawn e ?call")
          case s: (Inl err)
          then have "(\<exists>a \<in> set argv. has_null_byte a) \<or> spawn_rejects e ?call"
            using spawn_Inl_iff [of e ?call] by auto
          then show ?thesis
            using Inr False a
            by (auto simp: generate_dispatch [OF assms] generate_route_def topic
                generatePresentation_spawn_Inl [OF a s])
        next
          case s: (Inr p)
          then have "\<not> ((\<exists>a \<in> set argv. has_null_byte a) \<or> spawn_rejects e ?call)"
            using spawn_Inl_iff [of e ?call] by auto
          then show ?thesis
            using Inr False a nd
            by (auto simp: generate_dispatch [OF assms] generate_route_def topic
                generatePresentation_Inr [OF a s])
        qed
      qed
    qed
  qed
qed

theorem generate_500_iff_witness:
  "(\<exists>b. reply (handleRequest sample_env generate_request) = respond 500 json_type b) = False
   \<and> fst (generatePresentation sample_env sample_options) = Resolved (on_close sample_exit)"
proof -
  have u: "new_URL sample_env (req_url generate_request) = Some \<lparr>pathname = js ''/api/generate''\<rparr>"
    by (simp add: generate_request_def url_generate)
  have m: "req_method generate_request = js ''POST''"
    by (simp add: generate_request_def)
  have p: "JSON_parse sample_env (req_body generate_request) = Inr sample_options"
    by (simp add: sample_env_def)
  have o: "sample_options \<noteq> JNull" "sample_options \<noteq> JUndefined"
    "\<not> truthy (property sample_options (js ''duration''))"
    by (simp_all add: sample_options_def js_def)
  have a: "spawn_args sample_env sample_options =
      Inr [JStr (path_join [SCRIPTS_DIR sample_env, js ''search.py'']),
           JStr (js ''Q4 Sales Review''),
           JStr (js ''--presentation''),
           JStr (js ''--type''), JStr (js ''business_presentation''),
           JStr (js ''--audience''), JStr (js ''general_employees''),
           JStr (js ''--duration''), JStr (js ''15''),
           JStr (js ''--tone''), JStr (js ''professional''),
           JStr (js ''--industry''), JStr [],
           JStr (js ''--output''),
           JStr (path_join [OUTPUT_DIR sample_env, js ''presentation_'' @ generateId sample_env @ js ''.html'']),
           JStr (js ''--presentation-format''), JStr (js ''reveal_js'')]"
    unfolding sample_options_def by (rule spawn_args_topic_only [OF sample_topic(1)])
  have c: "child_process sample_env = (\<lambda>c. sample_exit)" "\<not> spawn_rejects sample_env call" for call
    by (simp_all add: sample_env_def)
  have n: "\<not> has_null_byte (JStr (path_join [SCRIPTS_DIR sample_env, js ''search.py'']))"
    "\<not> has_null_byte (JStr (path_join [OUTPUT_DIR sample_env,
        js ''presentation_'' @ generateId sample_env @ js ''.html'']))"
    using script_path_no_NUL [of sample_env] output_path_no_NUL [of sample_env]
    by (simp_all add: has_null_byte_def)
  have first: "\<not> (\<exists>b. reply (handleRequest sample_env generate_request) = respond 500 json_type b)"
    using generate_500_iff [OF u _ m] p o a c(2) n sample_topic(2)
    by (simp add: has_null_byte_def js_no_NUL)
  have second: "fst (generatePresentation sample_env sample_options) = Resolved (on_close sample_exit)"
    using generate_500_iff [OF u _ m] a spawn_topic_only [OF sample_topic(2) sample_accepts(1)]
    by (simp add: c(1))
  show ?thesis
    using first second by simp
qed

text \<open>
  The claim as stated fails for the body \<open>null\<close>: it parses, and the answer is 500
  because reading \<open>topic\<close> of \<open>null\<close> throws.
\<close>

theorem null_body_counterexample:
  "JSON_parse (sample_env\<lparr>JSON_parse := \<lambda>b. Inr JNull\<rparr>) (req_body generate_request) = Inr JNull
   \<and> handleRequest (sample_env\<lparr>JSON_parse := \<lambda>b. Inr JNull\<rparr>) generate_request =
       \<lparr>reply = respond 500 json_type
          (JSON_stringify (JObj [(js ''success'', JBool False),
             (js ''error'', JStr (js ''Cannot read properties of null (reading '' @ [0x27]
                                   @ js ''topic'' @ [0x27] @ js '')''))])),
        spawned = []\<rparr>"
  by (simp add: sample_generate_dispatch generate_route_def get_field_def failure_def)

section \<open>The dispatcher\<close>

text \<open>
  C3, as amended. The catalog routes look at the path only: a request whose pathname
  is exactly \<open>/api/health\<close>, \<open>/api/templates\<close>, \<open>/api/presentation-types\<close> or
  \<open>/api/audiences\<close> is answered with status 200 and the catalog whatever its method
  (GET, POST, ...); only OPTIONS, answered before any route, is treated differently.
  Nothing falls through to a later route.
\<close>

theorem catalog_routes_ignore_method:
  assumes "new_URL e (req_url req) = Some u" and "req_method req \<noteq> js ''OPTIONS''"
  shows "(pathname u = js ''/api/health'' \<longrightarrow>
            handleRequest e req =
              \<lparr>reply = respond 200 json_type (JSON_stringify health_status), spawned = []\<rparr>)
       \<and> (pathname u = js ''/api/templates'' \<longrightarrow>
            handleRequest e req =
              \<lparr>reply = respond 200 json_type (JSON_stringify templates_catalog), spawned = []\<rparr>)
       \<and> (pathname u = js ''/api/presentation-types'' \<longrightarrow>
            handleRequest e req =
              \<lparr>reply = respond 200 json_type (JSON_stringify types_catalog), spawned = []\<rparr>)
       \<and> (pathname u = js ''/api/audiences'' \<longrightarrow>
            handleRequest e req =
              \<lparr>reply = respond 200 json_type (JSON_stringify audiences_catalog), spawned = []\<rparr>)"
  using assms by (simp add: handleRequest_def js_def)

theorem catalog_routes_ignore_method_witness:
  "handleRequest sample_env \<lparr>req_method = js ''DELETE'', req_url = js ''/api/health'', req_body = []\<rparr> =
     \<lparr>reply = respond 200 json_type (JSON_stringify health_status), spawned = []\<rparr>"
proof -
  let ?req = "\<lparr>req_method = js ''DELETE'', req_url = js ''/api/health'', req_body = []\<rparr>"
  have u: "new_URL sample_env (req_url ?req) = Some \<lparr>pathname = js ''/api/health''\<rparr>"
    by (simp add: url_catalogs)
  have m: "req_method ?req \<noteq> js ''OPTIONS''"
    by (simp add: js_def)
  show ?thesis
    using catalog_routes_ignore_method [OF u m] by simp
qed

text \<open>The claim as stated fails: a POST to \<open>/api/health\<close> is served the health object.\<close>

theorem post_health_counterexample:
  "js ''POST'' \<noteq> js ''GET''
   \<and> handleRequest sample_env \<lparr>req_method = js ''POST'', req_url = js ''/api/health'', req_body = []\<rparr> =
       \<lparr>reply = respond 200 json_type (JSON_stringify health_status), spawned = []\<rparr>"
  by (simp add: handleRequest_def url_catalogs) (simp add: js_def)

text \<open>
  C7. For GET requests the four catalog routes do not depend on anything: two calls of
  the same route, in any two states of the environment, give the same response with
  the same fixed body, and start no process. The templates list has 4 entries, the
  types list 7 and the audiences list 6.
\<close>

theorem catalog_routes_fixed:
  assumes "new_URL e1 (req_url r1) = Some u1" and "new_URL e2 (req_url r2) = Some u2"
    and "req_method r1 = js ''GET''" and "req_method r2 = js ''GET''"
    and "pathname u1 = pathname u2"
    and "pathname u1 \<in> {js ''/api/health'', js ''/api/templates'',
                          js ''/api/presentation-types'', js ''/api/audiences''}"
  shows "handleRequest e1 r1 = handleRequest e2 r2
       \<and> handleRequest e1 r1 =
           \<lparr>reply = respond 200 json_type
              (JSON_stringify
                 (if pathname u1 = js ''/api/health'' then health_status
                  else if pathname u1 = js ''/api/templates'' then templates_catalog
                  else if pathname u1 = js ''/api/presentation-types'' then types_catalog
                  else audiences_catalog)),
            spawned = []\<rparr>
       \<and> (\<exists>ts. property templates_catalog (js ''templates'') = JArr ts \<and> length ts = 4)
       \<and> (\<exists>ts. property types_catalog (js ''types'') = JArr ts \<and> length ts = 7)
       \<and> (\<exists>ts. property audiences_catalog (js ''audiences'') = JArr ts \<and> length ts = 6)"
proof -
  have g: "js ''GET'' \<noteq> js ''OPTIONS''" by simp
  have a: "handleRequest e1 r1 =
           \<lparr>reply = respond 200 json_type
              (JSON_stringify
                 (if pathname u1 = js ''/api/health'' then health_status
                  else if pathname u1 = js ''/api/templates'' then templates_catalog
                  else if pathname u1 = js ''/api/presentation-types'' then types_catalog
                  else audiences_catalog)),
            spawned = []\<rparr>"
    using assms(1,3,6) g by (auto simp: handleRequest_def)
  have b: "handleRequest e2 r2 = handleRequest e1 r1"
    using assms g by (auto simp: handleRequest_def)
  have t: "\<exists>ts. property templates_catalog (js ''templates'') = JArr ts \<and> length ts = 4"
    by (simp add: templates_catalog_def)
  have ty: "\<exists>ts. property types_catalog (js ''types'') = JArr ts \<and> length ts = 7"
    by (simp add: types_catalog_def)
  have au: "\<exists>ts. property audiences_catalog (js ''audiences'') = JArr ts \<and> length ts = 6"
    by (simp add: audiences_catalog_def)
  show ?thesis
    using a b t ty au by simp
qed

theorem catalog_routes_fixed_witness:
  "handleRequest sample_env \<lparr>req_method = js ''GET'', req_url = js ''/api/health'', req_body = []\<rparr> =
   handleRequest (sample_env\<lparr>Date_now := 99, files := \<lambda>p. None\<rparr>)
     \<lparr>req_method = js ''GET'', req_url = js ''/api/health'', req_body = js ''again''\<rparr>"
proof -
  let ?r1 = "\<lparr>req_method = js ''GET'', req_url = js ''/api/health'', req_body = []\<rparr>"
  let ?r2 = "\<lparr>req_method = js ''GET'', req_url = js ''/api/health'', req_body = js ''again''\<rparr>"
  let ?e2 = "sample_env\<lparr>Date_now := 99, files := \<lambda>p. None\<rparr>"
  have u1: "new_URL sample_env (req_url ?r1) = Some \<lparr>pathname = js ''/api/health''\<rparr>"
    by (simp add: url_catalogs)
  have u2: "new_URL ?e2 (req_url ?r2) = Some \<lparr>pathname = js ''/api/health''\<rparr>"
    by (simp add: url_catalogs)
  show ?thesis
    using catalog_routes_fixed [OF u1 u2] by simp
qed

lemma respond_cors: "respond st hs b = Responded r \<Longrightarrow> take 3 (headers r) = cors_headers"
  by (auto simp: respond_def cors_headers_def)

lemma generate_route_cors:
  "reply (generate_route e b) = Responded r \<Longrightarrow> take 3 (headers r) = cors_headers"
  by (auto simp: generate_route_def dest: respond_cors
      split: sum.splits if_splits prod.splits promise.splits)

lemma output_route_cors:
  "output_route e p = Responded r \<Longrightarrow> take 3 (headers r) = cors_headers"
  by (auto simp: output_route_def Let_def dest: respond_cors split: sum.splits if_splits)

lemma static_route_cors:
  "static_route e p = Responded r \<Longrightarrow> take 3 (headers r) = cors_headers"
  by (auto simp: static_route_def Let_def dest: respond_cors split: sum.splits if_splits)

text \<open>
  Every response that is made, whichever route made it, begins with the three CORS
  headers, and an OPTIONS request whose target the URL constructor accepts is
  answered with 204 before any route is matched.
\<close>

lemma responses_carry_cors:
  "reply (handleRequest e req) = Responded r \<Longrightarrow> take 3 (headers r) = cors_headers"
  by (auto simp: handleRequest_def
      dest: respond_cors generate_route_cors output_route_cors static_route_cors
      split: option.splits if_splits)

lemma options_accepted:
  "new_URL e (req_url req) = Some u \<Longrightarrow> req_method req = js ''OPTIONS'' \<Longrightarrow>
   handleRequest e req = \<lparr>reply = respond 204 [] NoBody, spawned = []\<rparr>"
  by (simp add: handleRequest_def)

lemma url_double_slash: "new_URL e (js ''//'') = None"
  by (simp add: url_eval)

text \<open>
  C8 does not hold of the code. The URL constructor is called before the CORS headers
  are set and before the method is looked at, and nothing catches what it throws. The
  request \<open>OPTIONS //\<close> has a target that the constructor rejects (an authority with an
  empty host): the handler throws a \<open>TypeError\<close>, and there is no 204 response and no
  CORS header, in every state of the environment.
\<close>

theorem options_invalid_url:
  "new_URL e (js ''//'') = None
   \<and> handleRequest e \<lparr>req_method = js ''OPTIONS'', req_url = js ''//'', req_body = b\<rparr> =
       \<lparr>reply = Threw (TypeError (js ''Invalid URL'')), spawned = []\<rparr>
   \<and> (\<forall>r. reply (handleRequest e \<lparr>req_method = js ''OPTIONS'', req_url = js ''//'', req_body = b\<rparr>)
            \<noteq> Responded r)"
  by (simp add: handleRequest_def url_double_slash)

theorem options_invalid_url_witness:
  "reply (handleRequest sample_env \<lparr>req_method = js ''OPTIONS'', req_url = js ''//'', req_body = []\<rparr>) =
     Threw (TypeError (js ''Invalid URL''))"
  using options_invalid_url [of sample_env "[]"] by simp

section \<open>The output route\<close>

lemma plain_output: "plain (js ''output'')"
  by (simp add: plain_def js_def slash_def dot_def)

lemma OUTPUT_DIR_shape:
  "\<exists>st. OUTPUT_DIR e = slash # join_slash st \<and> st \<noteq> [] \<and> (\<forall>s \<in> set st. plain s)"
proof -
  have d: "dirname e \<noteq> []" "hd (dirname e) = slash"
    by (simp_all add: dirname_def)
  obtain st where st: "path_join [dirname e, js ''output''] = slash # join_slash (st @ [js ''output''])"
      "\<forall>s \<in> set st. plain s"
    using path_join_absolute [OF d plain_output] by blast
  have "\<forall>s \<in> set (st @ [js ''output'']). plain s"
    using st(2) plain_output by auto
  then show ?thesis
    using st(1) unfolding OUTPUT_DIR_def by blast
qed

lemma output_child:
  assumes "plain name"
  shows "path_join [OUTPUT_DIR e, name] = OUTPUT_DIR e @ slash # name"
proof -
  obtain st where st: "OUTPUT_DIR e = slash # join_slash st" "st \<noteq> []" "\<forall>s \<in> set st. plain s"
    using OUTPUT_DIR_shape by blast
  show ?thesis
    unfolding st(1) using path_join_child [OF st(3) st(2) assms] by simp
qed

lemma output_dispatch:
  assumes "new_URL e (req_url req) = Some u" and "req_method req \<noteq> js ''OPTIONS''"
    and "startsWith (pathname u) (js ''/output/'')"
  shows "handleRequest e req = \<lparr>reply = output_route e (pathname u), spawned = []\<rparr>"
proof -
  have "pathname u \<noteq> js ''/api/health''" "pathname u \<noteq> js ''/api/templates''"
    "pathname u \<noteq> js ''/api/presentation-types''" "pathname u \<noteq> js ''/api/audiences''"
    "pathname u \<noteq> js ''/api/generate''"
    using assms(3) by (auto simp: startsWith_def js_def)
  then show ?thesis
    using assms by (simp add: handleRequest_def)
qed

lemma unreserved_plain:
  assumes "name \<noteq> []" and "\<forall>c \<in> set name. unreserved c"
    and "name \<noteq> [dot]" and "name \<noteq> [dot, dot]"
  shows "plain name"
  using assms unreserved_facts(9) by (auto simp: plain_def)

text \<open>
  What a request for \<open>/output/name\<close> gets, \<open>name\<close> being made of letters, digits, \<open>-\<close>,
  \<open>.\<close>, \<open>_\<close> and \<open>~\<close>: the entry \<open>name\<close> of the output directory decides.
\<close>

lemma output_lookup:
  assumes "name \<noteq> []" and "\<forall>c \<in> set name. unreserved c"
    and "name \<noteq> [dot]" and "name \<noteq> [dot, dot]"
    and "m \<noteq> js ''OPTIONS''"
  shows "handleRequest e \<lparr>req_method = m, req_url = js ''/output/'' @ name, req_body = b\<rparr> =
     \<lparr>reply =
        (case files e (OUTPUT_DIR e @ slash # name) of
           None \<Rightarrow> respond 404 html_type (Text not_found_html)
         | Some Directory \<Rightarrow> Threw (SystemError (js ''EISDIR: illegal operation on a directory, read''))
         | Some (File data) \<Rightarrow>
             respond 200
               [(js ''Content-Type'', mime_or (toLowerCase e (extname name)) (js ''text/html''))]
               (Bytes data)),
      spawned = []\<rparr>"
proof -
  let ?req = "\<lparr>req_method = m, req_url = js ''/output/'' @ name, req_body = b\<rparr>"
  let ?u = "\<lparr>pathname = js ''/output/'' @ name\<rparr>"
  have pl: "plain name"
    by (rule unreserved_plain [OF assms(1-4)])
  then have ns: "slash \<notin> set name"
    by (simp add: plain_def)
  have u: "new_URL e (req_url ?req) = Some ?u"
    using new_URL_output [OF assms(1-4)] by simp
  have s: "startsWith (pathname ?u) (js ''/output/'')"
    by (simp add: startsWith_def)
  have d: "handleRequest e ?req = \<lparr>reply = output_route e (js ''/output/'' @ name), spawned = []\<rparr>"
    using output_dispatch [OF u _ s] assms(5) by simp
  have b: "basename (js ''/output/'' @ name) = name"
    by (rule basename_output [OF assms(1) ns])
  show ?thesis
    unfolding d
    by (simp add: output_route_def b output_child [OF pl] existsSync_def readFileSync_def Let_def
        split: option.splits fsnode.splits)
qed

lemma query_dropped:
  assumes "name \<noteq> []" and "\<forall>c \<in> set name. unreserved c"
  shows "new_URL e (js ''/output/'' @ name @ 0x3F # q) = new_URL e (js ''/output/'' @ name)"
proof -
  let ?p = "js ''/output/'' @ name"
  have "last ?p = last name"
    using assms(1) by simp
  moreover have "unreserved (last name)"
    using assms by simp
  ultimately have l: "\<not> c0_or_space (last ?p)"
    using unreserved_facts(3) by simp
  have n: "0x3F \<notin> set ?p" "0x23 \<notin> set ?p"
    using assms(2) unreserved_facts(5,6) by (auto simp: js_def)
  have h: "?p \<noteq> []" "hd ?p = slash"
    by (simp_all add: js_def slash_def)
  show ?thesis
    using new_URL_query [OF h n l, of e q] by simp
qed

lemma health_query: "new_URL e (js ''/api/health'' @ 0x3F # q) = Some \<lparr>pathname = js ''/api/health''\<rparr>"
proof -
  have "new_URL e (js ''/api/health'' @ 0x3F # q) = new_URL e (js ''/api/health'')"
    by (rule new_URL_query) (simp_all add: js_def slash_def c0_or_space_def)
  then show ?thesis
    by (simp add: url_catalogs)
qed

lemma sample_names:
  "js ''passwd'' \<noteq> []" "\<forall>c \<in> set (js ''passwd''). unreserved c"
  "js ''passwd'' \<noteq> [dot]" "js ''passwd'' \<noteq> [dot, dot]"
  "js ''assets'' \<noteq> []" "\<forall>c \<in> set (js ''assets''). unreserved c"
  "js ''assets'' \<noteq> [dot]" "js ''assets'' \<noteq> [dot, dot]"
  by (simp_all add: js_def unreserved_def ascii_alpha_def ascii_digit_def)

lemma sample_files:
  "files sample_env (OUTPUT_DIR sample_env @ slash # js ''passwd'') = Some (File [1, 2, 3])"
  "files sample_env (OUTPUT_DIR sample_env @ slash # js ''assets'') = Some Directory"
  by (simp_all add: sample_dirs) (simp_all add: sample_env_def js_def slash_def)

lemma sample_mime: "mime_or (toLowerCase sample_env (extname (js ''passwd''))) (js ''text/html'') = js ''text/html''"
  by (simp add: sample_env_def mime_or_def MIME_TYPES_def path_eval)

text \<open>
  Spaces at the end of the whole target are dropped before it is parsed: a path that
  ends in a space loses it when nothing follows and keeps it, escaped, when a query
  follows. So the statement about the query string is for paths that do not end in a
  space or a control character, as the target of a request never does (the HTTP parser
  ends the target at the first space).
\<close>

lemma trailing_space_matters:
  "new_URL e (js ''/a '' @ 0x3F # js ''x'') = Some \<lparr>pathname = js ''/a%20''\<rparr>"
  "new_URL e (js ''/a '') = Some \<lparr>pathname = js ''/a''\<rparr>"
  by (simp_all add: url_eval)

text \<open>
  C10. The dispatcher reads the pathname of the parsed URL and nothing else of the
  request target: two requests with the same method and body whose targets have the
  same pathname get the same result. The constructor strips the query string: a target
  \<open>p?q\<close>, where \<open>p\<close> starts with a slash, holds no \<open>?\<close> and no \<open>#\<close> and does not end in a
  space or control character, has the pathname of \<open>p\<close> and gets the result of \<open>p\<close>. So
  \<open>GET /api/health?q\<close> is answered with the health JSON like \<open>GET /api/health\<close>, and
  \<open>GET /output/name?q\<close> is answered with the bytes of the file \<open>name\<close> of the output
  directory and its MIME type like \<open>GET /output/name\<close>, whatever \<open>q\<close> is.
\<close>

theorem routing_by_pathname:
  "(new_URL e (req_url r1) = Some u1 \<and> new_URL e (req_url r2) = Some u2 \<and>
    pathname u1 = pathname u2 \<and> req_method r1 = req_method r2 \<and> req_body r1 = req_body r2 \<longrightarrow>
      handleRequest e r1 = handleRequest e r2)
   \<and> (p \<noteq> [] \<and> hd p = slash \<and> 0x3F \<notin> set p \<and> 0x23 \<notin> set p \<and> \<not> c0_or_space (last p) \<longrightarrow>
        new_URL e (p @ 0x3F # q) = new_URL e p \<and>
        handleRequest e \<lparr>req_method = m, req_url = p @ 0x3F # q, req_body = b\<rparr> =
        handleRequest e \<lparr>req_method = m, req_url = p, req_body = b\<rparr>)
   \<and> handleRequest e \<lparr>req_method = js ''GET'', req_url = js ''/api/health'' @ 0x3F # q, req_body = b\<rparr> =
       \<lparr>reply = respond 200 json_type (JSON_stringify health_status), spawned = []\<rparr>
   \<and> handleRequest e \<lparr>req_method = js ''GET'', req_url = js ''/api/health'', req_body = b\<rparr> =
       \<lparr>reply = respond 200 json_type (JSON_stringify health_status), spawned = []\<rparr>
   \<and> (name \<noteq> [] \<and> (\<forall>c \<in> set name. unreserved c) \<and> name \<noteq> [dot] \<and> name \<noteq> [dot, dot] \<and>
       files e (OUTPUT_DIR e @ slash # name) = Some (File data) \<longrightarrow>
        handleRequest e \<lparr>req_method = js ''GET'', req_url = js ''/output/'' @ name @ 0x3F # q, req_body = b\<rparr> =
          \<lparr>reply = respond 200
             [(js ''Content-Type'', mime_or (toLowerCase e (extname name)) (js ''text/html''))]
             (Bytes data),
           spawned = []\<rparr> \<and>
        handleRequest e \<lparr>req_method = js ''GET'', req_url = js ''/output/'' @ name, req_body = b\<rparr> =
          \<lparr>reply = respond 200
             [(js ''Content-Type'', mime_or (toLowerCase e (extname name)) (js ''text/html''))]
             (Bytes data),
           spawned = []\<rparr>)"
proof (intro conjI impI)
  assume "new_URL e (req_url r1) = Some u1 \<and> new_URL e (req_url r2) = Some u2 \<and>
    pathname u1 = pathname u2 \<and> req_method r1 = req_method r2 \<and> req_body r1 = req_body r2"
  then show "handleRequest e r1 = handleRequest e r2"
    by (simp add: handleRequest_def)
next
  assume a: "p \<noteq> [] \<and> hd p = slash \<and> 0x3F \<notin> set p \<and> 0x23 \<notin> set p \<and> \<not> c0_or_space (last p)"
  then show q: "new_URL e (p @ 0x3F # q) = new_URL e p"
    by (intro new_URL_query) simp_all
  show "handleRequest e \<lparr>req_method = m, req_url = p @ 0x3F # q, req_body = b\<rparr> =
        handleRequest e \<lparr>req_method = m, req_url = p, req_body = b\<rparr>"
    by (simp add: handleRequest_def q split: option.splits)
next
  show "handleRequest e \<lparr>req_method = js ''GET'', req_url = js ''/api/health'' @ 0x3F # q, req_body = b\<rparr> =
       \<lparr>reply = respond 200 json_type (JSON_stringify health_status), spawned = []\<rparr>"
    by (simp add: handleRequest_def health_query)
next
  show "handleRequest e \<lparr>req_method = js ''GET'', req_url = js ''/api/health'', req_body = b\<rparr> =
       \<lparr>reply = respond 200 json_type (JSON_stringify health_status), spawned = []\<rparr>"
    by (simp add: handleRequest_def url_catalogs)
next
  assume a: "name \<noteq> [] \<and> (\<forall>c \<in> set name. unreserved c) \<and> name \<noteq> [dot] \<and> name \<noteq> [dot, dot] \<and>
       files e (OUTPUT_DIR e @ slash # name) = Some (File data)"
  have g: "js ''GET'' \<noteq> js ''OPTIONS''" by simp
  have plain_target:
    "handleRequest e \<lparr>req_method = js ''GET'', req_url = js ''/output/'' @ name, req_body = b\<rparr> =
          \<lparr>reply = respond 200
             [(js ''Content-Type'', mime_or (toLowerCase e (extname name)) (js ''text/html''))]
             (Bytes data),
           spawned = []\<rparr>"
    using a output_lookup [OF _ _ _ _ g, of name e b] by simp
  have "handleRequest e \<lparr>req_method = js ''GET'', req_url = js ''/output/'' @ name @ 0x3F # q, req_body = b\<rparr> =
        handleRequest e \<lparr>req_method = js ''GET'', req_url = js ''/output/'' @ name, req_body = b\<rparr>"
    using a by (simp add: handleRequest_def query_dropped split: option.splits)
  then show
    "handleRequest e \<lparr>req_method = js ''GET'', req_url = js ''/output/'' @ name @ 0x3F # q, req_body = b\<rparr> =
          \<lparr>reply = respond 200
             [(js ''Content-Type'', mime_or (toLowerCase e (extname name)) (js ''text/html''))]
             (Bytes data),
           spawned = []\<rparr>"
    using plain_target by simp
  show "handleRequest e \<lparr>req_method = js ''GET'', req_url = js ''/output/'' @ name, req_body = b\<rparr> =
          \<lparr>reply = respond 200
             [(js ''Content-Type'', mime_or (toLowerCase e (extname name)) (js ''text/html''))]
             (Bytes data),
           spawned = []\<rparr>"
    by (rule plain_target)
qed

theorem routing_by_pathname_witness:
  "handleRequest sample_env \<lparr>req_method = js ''GET'', req_url = js ''/api/health?x=1'', req_body = []\<rparr> =
     \<lparr>reply = respond 200 json_type (JSON_stringify health_status), spawned = []\<rparr>
   \<and> handleRequest sample_env \<lparr>req_method = js ''GET'', req_url = js ''/api/health'', req_body = []\<rparr> =
     \<lparr>reply = respond 200 json_type (JSON_stringify health_status), spawned = []\<rparr>
   \<and> handleRequest sample_env \<lparr>req_method = js ''GET'', req_url = js ''/output/passwd?v=2'', req_body = []\<rparr> =
     \<lparr>reply = respond 200 [(js ''Content-Type'', js ''text/html'')] (Bytes [1, 2, 3]), spawned = []\<rparr>
   \<and> handleRequest sample_env \<lparr>req_method = js ''GET'', req_url = js ''/output/passwd'', req_body = []\<rparr> =
     \<lparr>reply = respond 200 [(js ''Content-Type'', js ''text/html'')] (Bytes [1, 2, 3]), spawned = []\<rparr>
   \<and> handleRequest sample_env \<lparr>req_method = js ''POST'', req_url = js ''/output/passwd?v=2'', req_body = []\<rparr> =
     handleRequest sample_env \<lparr>req_method = js ''POST'', req_url = js ''/output/passwd'', req_body = []\<rparr>"
proof -
  have t: "js ''/api/health?x=1'' = js ''/api/health'' @ 0x3F # js ''x=1''"
    "js ''/output/passwd?v=2'' = js ''/output/'' @ js ''passwd'' @ 0x3F # js ''v=2''"
    "js ''/output/passwd?v=2'' = js ''/output/passwd'' @ 0x3F # js ''v=2''"
    "js ''/output/passwd'' = js ''/output/'' @ js ''passwd''"
    by (simp_all add: js_def)
  have p: "js ''/output/passwd'' \<noteq> []" "hd (js ''/output/passwd'') = slash"
    "0x3F \<notin> set (js ''/output/passwd'')" "0x23 \<notin> set (js ''/output/passwd'')"
    "\<not> c0_or_space (last (js ''/output/passwd''))"
    by (simp_all add: js_def slash_def c0_or_space_def)
  have u: "new_URL sample_env (js ''/api/health'' @ 0x3F # js ''x=1'') = Some \<lparr>pathname = js ''/api/health''\<rparr>"
    "new_URL sample_env (js ''/api/health'') = Some \<lparr>pathname = js ''/api/health''\<rparr>"
    by (simp_all add: health_query url_catalogs)
  note r = routing_by_pathname
    [of sample_env
        "\<lparr>req_method = js ''GET'', req_url = js ''/api/health'' @ 0x3F # js ''x=1'', req_body = []\<rparr>"
        "\<lparr>pathname = js ''/api/health''\<rparr>"
        "\<lparr>req_method = js ''GET'', req_url = js ''/api/health'', req_body = []\<rparr>"
        "\<lparr>pathname = js ''/api/health''\<rparr>"
        "js ''/output/passwd''" "js ''v=2''" "js ''POST''" "[]" "js ''passwd''" "[1, 2, 3]"]
  have a: "handleRequest sample_env
      \<lparr>req_method = js ''GET'', req_url = js ''/api/health'' @ 0x3F # js ''x=1'', req_body = []\<rparr> =
      handleRequest sample_env \<lparr>req_method = js ''GET'', req_url = js ''/api/health'', req_body = []\<rparr>"
    using r u by simp
  have b: "handleRequest sample_env
      \<lparr>req_method = js ''POST'', req_url = js ''/output/passwd'' @ 0x3F # js ''v=2'', req_body = []\<rparr> =
      handleRequest sample_env \<lparr>req_method = js ''POST'', req_url = js ''/output/passwd'', req_body = []\<rparr>"
    using r p by simp
  have c: "handleRequest sample_env
      \<lparr>req_method = js ''GET'', req_url = js ''/api/health'', req_body = []\<rparr> =
      \<lparr>reply = respond 200 json_type (JSON_stringify health_status), spawned = []\<rparr>"
    using r by simp
  have d: "handleRequest sample_env
      \<lparr>req_method = js ''GET'', req_url = js ''/output/'' @ js ''passwd'' @ 0x3F # js ''v=2'', req_body = []\<rparr> =
      \<lparr>reply = respond 200 [(js ''Content-Type'', js ''text/html'')] (Bytes [1, 2, 3]), spawned = []\<rparr>"
    "handleRequest sample_env
      \<lparr>req_method = js ''GET'', req_url = js ''/output/'' @ js ''passwd'', req_body = []\<rparr> =
      \<lparr>reply = respond 200 [(js ''Content-Type'', js ''text/html'')] (Bytes [1, 2, 3]), spawned = []\<rparr>"
    using r sample_names(1-4) sample_files(1) by (simp_all add: sample_mime)
  show ?thesis
    using a b c d by (simp only: t) simp
qed

text \<open>
  C4 does not hold of the code. For a request \<open>GET /output/name\<close> where the entry \<open>name\<close>
  of the output directory is a directory, \<open>existsSync\<close> is true, the status 200 is
  written and \<open>readFileSync\<close> then throws: the handler ends in an exception that nothing
  catches, neither the 200 response with the file nor the 404 response.
\<close>

theorem output_directory_throws:
  assumes "name \<noteq> []" and "\<forall>c \<in> set name. unreserved c"
    and "name \<noteq> [dot]" and "name \<noteq> [dot, dot]"
    and "files e (OUTPUT_DIR e @ slash # name) = Some Directory"
  shows "path_join [OUTPUT_DIR e, basename (js ''/output/'' @ name)] = OUTPUT_DIR e @ slash # name
       \<and> existsSync e (OUTPUT_DIR e @ slash # name)
       \<and> handleRequest e \<lparr>req_method = js ''GET'', req_url = js ''/output/'' @ name, req_body = b\<rparr> =
           \<lparr>reply = Threw (SystemError (js ''EISDIR: illegal operation on a directory, read'')),
            spawned = []\<rparr>"
proof -
  have pl: "plain name"
    by (rule unreserved_plain [OF assms(1-4)])
  then have ns: "slash \<notin> set name"
    by (simp add: plain_def)
  have g: "js ''GET'' \<noteq> js ''OPTIONS''" by simp
  show ?thesis
    using assms(5) output_lookup [OF assms(1-4) g, of e b]
    by (simp add: basename_output [OF assms(1) ns] output_child [OF pl] existsSync_def)
qed

theorem output_directory_throws_witness:
  "handleRequest sample_env \<lparr>req_method = js ''GET'', req_url = js ''/output/assets'', req_body = []\<rparr> =
     \<lparr>reply = Threw (SystemError (js ''EISDIR: illegal operation on a directory, read'')),
      spawned = []\<rparr>
   \<and> files sample_env (js ''/srv/app/output/assets'') = Some Directory"
proof -
  have t: "js ''/output/assets'' = js ''/output/'' @ js ''assets''"
    by (simp add: js_def)
  have f: "files sample_env (js ''/srv/app/output/assets'') = Some Directory"
    by (simp add: sample_env_def js_def)
  show ?thesis
    using output_directory_throws [OF sample_names(5-8) sample_files(2), of "[]"] f
    by (simp add: t)
qed

end
